theory Spec2Isabelle
  imports Main "HOL-Library.Word" "HOL-Library.AList"
begin

section \<open>Log levels (\<^verbatim>\<open>log.go\<close>, lines 15--74)\<close>

text \<open>
  \<^verbatim>\<open>type Level int\<close> with the six constants declared by \<^verbatim>\<open>iota\<close>.  A level is an
  integer: the filter of \<^verbatim>\<open>log\<close> compares levels with \<^verbatim>\<open><\<close>.
\<close>

type_synonym Level = int

definition LevelDebug :: Level where "LevelDebug = 0"
definition LevelInfo :: Level where "LevelInfo = 1"
definition LevelNotice :: Level where "LevelNotice = 2"
definition LevelWarning :: Level where "LevelWarning = 3"
definition LevelError :: Level where "LevelError = 4"
definition LevelCritical :: Level where "LevelCritical = 5"

text \<open>The map \<^verbatim>\<open>levelNames\<close>, as the association list of its literal.\<close>

definition levelNames :: "(string \<times> Level) list" where
  "levelNames =
     [(''debug'', LevelDebug), (''info'', LevelInfo), (''notice'', LevelNotice),
      (''warning'', LevelWarning), (''error'', LevelError), (''critical'', LevelCritical)]"

text \<open>
  \<^verbatim>\<open>func NewLevel(name string) Level\<close>: the level stored under the name, and
  \<^verbatim>\<open>LevelError\<close> when the map has no such key.
\<close>

definition NewLevel :: "string \<Rightarrow> Level" where
  "NewLevel name = (case map_of levelNames name of Some l \<Rightarrow> l | None \<Rightarrow> LevelError)"

section \<open>Time (\<^verbatim>\<open>time.Time\<close>, \<^verbatim>\<open>time.Duration\<close>)\<close>

text \<open>
  A \<^verbatim>\<open>time.Time\<close> is taken as its wall-clock instant, in nanoseconds since the Unix
  epoch (an unbounded integer: the range of \<^verbatim>\<open>time.Time\<close> is far wider than that of
  \<^verbatim>\<open>int64\<close> nanoseconds).  A \<^verbatim>\<open>time.Duration\<close> is an \<^verbatim>\<open>int64\<close> count of nanoseconds, a
  64-bit word read with \<open>sint\<close>; Go's \<^verbatim>\<open>int\<close> is the 64-bit one.  \<^verbatim>\<open>time.Local\<close> is a
  zone with a fixed offset, \<open>zone\<close> seconds east of UTC.
\<close>

type_synonym Time = int
type_synonym int64 = "64 word"

definition Second :: int64 where "Second = 1000000000"
definition Minute :: int64 where "Minute = 60 * Second"
definition Hour :: int64 where "Hour = 60 * Minute"

record civil =
  cYear :: int
  cMonth :: int
  cDay :: int
  cHour :: int
  cMin :: int
  cSec :: int

definition isLeap :: "int \<Rightarrow> bool" where
  "isLeap y = (y mod 4 = 0 \<and> (y mod 100 \<noteq> 0 \<or> y mod 400 = 0))"

definition daysIn :: "int \<Rightarrow> int \<Rightarrow> int" where
  "daysIn m y = (if m = 2 then (if isLeap y then 29 else 28)
                 else if m = 4 \<or> m = 6 \<or> m = 9 \<or> m = 11 then 30 else 31)"

definition days_from_civil :: "int \<Rightarrow> int \<Rightarrow> int \<Rightarrow> int" where
  "days_from_civil y m d =
     (let y' = (if m \<le> 2 then y - 1 else y);
          era = y' div 400;
          yoe = y' - era * 400;
          doy = (153 * (if 2 < m then m - 3 else m + 9) + 2) div 5 + d - 1;
          doe = yoe * 365 + yoe div 4 - yoe div 100 + doy
      in era * 146097 + doe - 719468)"

definition civil_from_days :: "int \<Rightarrow> int \<times> int \<times> int" where
  "civil_from_days z =
     (let z' = z + 719468;
          era = z' div 146097;
          doe = z' - era * 146097;
          yoe = (doe - doe div 1460 + doe div 36524 - doe div 146096) div 365;
          doy = doe - (365 * yoe + yoe div 4 - yoe div 100);
          mp = (5 * doy + 2) div 153;
          d = doy - (153 * mp + 2) div 5 + 1;
          m = (if mp < 10 then mp + 3 else mp - 9)
      in ((if m \<le> 2 then yoe + era * 400 + 1 else yoe + era * 400), m, d))"

definition civilOf :: "int \<Rightarrow> Time \<Rightarrow> civil" where
  "civilOf zone t =
     (let s = t div 1000000000 + zone;
          (y, m, d) = civil_from_days (s div 86400);
          r = s mod 86400
      in \<lparr>cYear = y, cMonth = m, cDay = d, cHour = r div 3600, cMin = (r mod 3600) div 60, cSec = r mod 60\<rparr>)"

definition digitChar :: "nat \<Rightarrow> char" where
  "digitChar n = char_of (48 + n)"

fun digits :: "nat \<Rightarrow> string" where
  "digits n = (if n < 10 then [digitChar n] else digits (n div 10) @ [digitChar (n mod 10)])"

declare digits.simps [simp del]

definition appendInt :: "int \<Rightarrow> nat \<Rightarrow> string" where
  "appendInt x width =
     (let ds = digits (nat \<bar>x\<bar>)
      in (if x < 0 then ''-'' else []) @ replicate (width - length ds) CHR ''0'' @ ds)"

datatype chunk = stdLongYear | stdZeroMonth | stdZeroDay | stdHour | stdZeroMinute | stdZeroSecond
  | literal char

fun layoutChunks :: "string \<Rightarrow> chunk list" where
  "layoutChunks [] = []"
| "layoutChunks (c # cs) =
     (if take 4 (c # cs) = ''2006'' then stdLongYear # layoutChunks (drop 3 cs)
      else if take 2 (c # cs) = ''01'' then stdZeroMonth # layoutChunks (drop 1 cs)
      else if take 2 (c # cs) = ''02'' then stdZeroDay # layoutChunks (drop 1 cs)
      else if take 2 (c # cs) = ''15'' then stdHour # layoutChunks (drop 1 cs)
      else if take 2 (c # cs) = ''04'' then stdZeroMinute # layoutChunks (drop 1 cs)
      else if take 2 (c # cs) = ''05'' then stdZeroSecond # layoutChunks (drop 1 cs)
      else literal c # layoutChunks cs)"

fun formatChunk :: "civil \<Rightarrow> chunk \<Rightarrow> string" where
  "formatChunk c stdLongYear = appendInt (cYear c) 4"
| "formatChunk c stdZeroMonth = appendInt (cMonth c) 2"
| "formatChunk c stdZeroDay = appendInt (cDay c) 2"
| "formatChunk c stdHour = appendInt (cHour c) 2"
| "formatChunk c stdZeroMinute = appendInt (cMin c) 2"
| "formatChunk c stdZeroSecond = appendInt (cSec c) 2"
| "formatChunk c (literal x) = [x]"

definition Format :: "int \<Rightarrow> Time \<Rightarrow> string \<Rightarrow> string" where
  "Format zone t layout = concat (map (formatChunk (civilOf zone t)) (layoutChunks layout))"

definition formatDay :: string where "formatDay = ''20060102''"
definition formatHour :: string where "formatHour = ''2006010215''"
definition formatMin :: string where "formatMin = ''200601021504''"
definition formatSec :: string where "formatSec = ''20060102150405''"


definition isDigit :: "char \<Rightarrow> bool" where
  "isDigit c = (48 \<le> (of_char c :: nat) \<and> (of_char c :: nat) \<le> 57)"

definition digitVal :: "char \<Rightarrow> int" where
  "digitVal c = int (of_char c) - 48"

definition atoi :: "string \<Rightarrow> int option" where
  "atoi s = (if s \<noteq> [] \<and> list_all isDigit s
             then Some (foldl (\<lambda>a c. 10 * a + digitVal c) 0 s) else None)"

fun getnum :: "string \<Rightarrow> bool \<Rightarrow> (int \<times> string) option" where
  "getnum [] fixed = None"
| "getnum [c] fixed = (if isDigit c \<and> \<not> fixed then Some (digitVal c, []) else None)"
| "getnum (c # d # r) fixed =
     (if \<not> isDigit c then None
      else if \<not> isDigit d then (if fixed then None else Some (digitVal c, d # r))
      else Some (digitVal c * 10 + digitVal d, r))"

fun parseChunks :: "chunk list \<Rightarrow> string \<Rightarrow> civil \<Rightarrow> civil option" where
  "parseChunks [] v c = (if v = [] then Some c else None)"
| "parseChunks (stdLongYear # ks) v c =
     (if length v < 4 \<or> \<not> isDigit (hd v) then None
      else case atoi (take 4 v) of None \<Rightarrow> None
           | Some y \<Rightarrow> parseChunks ks (drop 4 v) (c\<lparr>cYear := y\<rparr>))"
| "parseChunks (stdZeroMonth # ks) v c =
     (case getnum v True of None \<Rightarrow> None
      | Some (m, r) \<Rightarrow> if m \<le> 0 \<or> 12 < m then None else parseChunks ks r (c\<lparr>cMonth := m\<rparr>))"
| "parseChunks (stdZeroDay # ks) v c =
     (case getnum v True of None \<Rightarrow> None
      | Some (d, r) \<Rightarrow> parseChunks ks r (c\<lparr>cDay := d\<rparr>))"
| "parseChunks (stdHour # ks) v c =
     (case getnum v False of None \<Rightarrow> None
      | Some (h, r) \<Rightarrow> if h < 0 \<or> 24 \<le> h then None else parseChunks ks r (c\<lparr>cHour := h\<rparr>))"
| "parseChunks (stdZeroMinute # ks) v c =
     (case getnum v True of None \<Rightarrow> None
      | Some (m, r) \<Rightarrow> if m < 0 \<or> 60 \<le> m then None else parseChunks ks r (c\<lparr>cMin := m\<rparr>))"
| "parseChunks (stdZeroSecond # ks) v c =
     (case getnum v True of None \<Rightarrow> None
      | Some (x, r) \<Rightarrow> if x < 0 \<or> 60 \<le> x then None else parseChunks ks r (c\<lparr>cSec := x\<rparr>))"
| "parseChunks (literal x # ks) v c =
     (case v of [] \<Rightarrow> None | y # r \<Rightarrow> if x = y then parseChunks ks r c else None)"

definition timeOfCivil :: "int \<Rightarrow> civil \<Rightarrow> Time" where
  "timeOfCivil zone c =
     (days_from_civil (cYear c) (cMonth c) (cDay c) * 86400
        + cHour c * 3600 + cMin c * 60 + cSec c - zone) * 1000000000"

definition ParseInLocation :: "int \<Rightarrow> string \<Rightarrow> string \<Rightarrow> Time option" where
  "ParseInLocation zone layout v =
     (case parseChunks (layoutChunks layout) v
             \<lparr>cYear = 0, cMonth = 1, cDay = 1, cHour = 0, cMin = 0, cSec = 0\<rparr> of
        None \<Rightarrow> None
      | Some c \<Rightarrow> if cDay c < 1 \<or> daysIn (cMonth c) (cYear c) < cDay c then None
                  else Some (timeOfCivil zone c))"


text \<open>
  \<^verbatim>\<open>Time.Truncate(d)\<close> rounds down to a multiple of \<open>d\<close> since the zero time (1 January
  of year 1, UTC, which is 62135596800 seconds before the Unix epoch) and returns the
  time unchanged when \<open>d \<le> 0\<close>.  \<^verbatim>\<open>Time.Sub\<close> saturates at the least and greatest
  \<^verbatim>\<open>Duration\<close>.
\<close>

definition unixToInternal :: int where
  "unixToInternal = 62135596800"

definition Truncate :: "Time \<Rightarrow> int \<Rightarrow> Time" where
  "Truncate t d = (if d \<le> 0 then t else t - (t + unixToInternal * 1000000000) mod d)"

definition maxDuration :: int where "maxDuration = 2 ^ 63 - 1"
definition minDuration :: int where "minDuration = - (2 ^ 63)"

definition Sub :: "Time \<Rightarrow> Time \<Rightarrow> int" where
  "Sub t u = (let d = t - u
              in if maxDuration < d then maxDuration else if d < minDuration then minDuration else d)"

section \<open>Strings, regular expressions and paths\<close>

text \<open>
  The two patterns the program compiles: \<^verbatim>\<open>[0-9]{n}\<close> (also written with a group,
  \<^verbatim>\<open>([0-9]{n})\<close>) and \<^verbatim>\<open>[0-9]{n}\.gz\<close>.  \<^verbatim>\<open>Regexp.FindString\<close> returns the text of the
  leftmost match, and the empty string when there is none.
\<close>

datatype regex = Digits nat | DigitsGz nat

fun matchPrefix :: "regex \<Rightarrow> string \<Rightarrow> string option" where
  "matchPrefix (Digits n) s =
     (if n \<le> length s \<and> list_all isDigit (take n s) then Some (take n s) else None)"
| "matchPrefix (DigitsGz n) s =
     (if n + 3 \<le> length s \<and> list_all isDigit (take n s) \<and> take 3 (drop n s) = ''.gz''
      then Some (take (n + 3) s) else None)"

fun FindString :: "regex \<Rightarrow> string \<Rightarrow> string" where
  "FindString rx [] = (case matchPrefix rx [] of Some m \<Rightarrow> m | None \<Rightarrow> [])"
| "FindString rx (c # cs) =
     (case matchPrefix rx (c # cs) of Some m \<Rightarrow> m | None \<Rightarrow> FindString rx cs)"

text \<open>\<^verbatim>\<open>strings.Replace(s, old, new, 1)\<close>: the first occurrence of \<open>old\<close> replaced.\<close>

fun Replace1 :: "string \<Rightarrow> string \<Rightarrow> string \<Rightarrow> string" where
  "Replace1 [] old new = (if old = [] then new else [])"
| "Replace1 (c # cs) old new =
     (if take (length old) (c # cs) = old then new @ drop (length old) (c # cs)
      else c # Replace1 cs old new)"

text \<open>
  \<^verbatim>\<open>filepath.Dir\<close>, \<^verbatim>\<open>filepath.Base\<close> and \<^verbatim>\<open>filepath.Join\<close> on slash-separated paths that
  are already clean (no empty, \<^verbatim>\<open>.\<close> or \<^verbatim>\<open>..\<close> element, no trailing slash).
\<close>

type_synonym path = string

definition Base :: "path \<Rightarrow> string" where
  "Base p = rev (takeWhile (\<lambda>c. c \<noteq> CHR ''/'') (rev p))"

definition Dir :: "path \<Rightarrow> path" where
  "Dir p =
     (if CHR ''/'' \<notin> set p then ''.''
      else let d = rev (drop 1 (dropWhile (\<lambda>c. c \<noteq> CHR ''/'') (rev p)))
           in if d = [] then ''/'' else d)"

definition Join :: "path \<Rightarrow> string \<Rightarrow> path" where
  "Join d n = (if d = ''.'' then n else if d = ''/'' then ''/'' @ n else d @ ''/'' @ n)"

section \<open>The operating system\<close>

text \<open>
  The file system is an association list from paths to contents (files only; every
  directory exists).  A gzip stream that \<^verbatim>\<open>io.Copy\<close> has written is unfinished until
  its writer is closed.  Every system call is appended to \<open>trace\<close>; \<open>faults\<close> names the
  calls the system refuses (a permission, a full disk), on top of the failures that follow
  from the file system itself (a missing file).  \<open>spawned\<close> lists the goroutines started
  with \<^verbatim>\<open>go\<close>: they run apart from their caller, which never waits for them.
\<close>

datatype content = Plain string | Gz content | GzPartial content

datatype openflag = O_APPEND_CREATE | O_TRUNC_CREATE

record osfile =
  Name :: path
  fdnum :: nat

datatype syscall =
    SysRename path path
  | SysOpenFile path openflag
  | SysOpen path
  | SysReaddirnames path
  | SysGlob string
  | SysCopy path path
  | SysGzFlush path
  | SysGzClose path
  | SysClose osfile
  | SysRemove path

datatype error =
    PathError string path
  | LinkError path path
  | ErrBadPattern
  | errInvalidRotateConfig

fun errText :: "error \<Rightarrow> string" where
  "errText (PathError opn p) = opn @ '' '' @ p"
| "errText (LinkError old new) = ''rename '' @ old @ '' '' @ new"
| "errText ErrBadPattern = ''syntax error in pattern''"
| "errText errInvalidRotateConfig = ''invalid log rotate config''"

datatype writer = FileWriter osfile | OtherWriter

datatype goroutine =
    GoCompress path
  | GoDeleteOverdue
  | GoDoRotate
  | GoHousekeeping path Time path
  | GoRotateLoop
  | GoStartRotateRoutine

type_synonym logrecord = "Level \<times> string \<times> string list"

record world =
  files :: "(path \<times> content) list"
  faults :: "syscall \<Rightarrow> bool"
  nextFd :: nat
  trace :: "syscall list"
  diag :: "logrecord list"
  written :: "logrecord list"
  spawned :: "goroutine list"
  nextCh :: nat
  closedCh :: "nat list"
  zone :: int

definition sys :: "syscall \<Rightarrow> world \<Rightarrow> world" where
  "sys c s = s\<lparr>trace := trace s @ [c]\<rparr>"

definition go :: "goroutine \<Rightarrow> world \<Rightarrow> world" where
  "go g s = s\<lparr>spawned := spawned s @ [g]\<rparr>"

text \<open>\<^verbatim>\<open>os.Rename\<close>: fails when refused or when the old path is missing; replaces the new path.\<close>

definition os_Rename :: "path \<Rightarrow> path \<Rightarrow> world \<Rightarrow> error option \<times> world" where
  "os_Rename old new s =
     (let s1 = sys (SysRename old new) s
      in if faults s (SysRename old new) then (Some (LinkError old new), s1)
         else case map_of (files s) old of
                None \<Rightarrow> (Some (LinkError old new), s1)
              | Some c \<Rightarrow> (None, s1\<lparr>files := AList.update new c (AList.delete old (files s))\<rparr>))"

text \<open>
  \<^verbatim>\<open>os.OpenFile\<close> with \<^verbatim>\<open>O_WRONLY|O_APPEND|O_CREATE\<close> (the file is created empty when
  missing) or \<^verbatim>\<open>O_WRONLY|O_TRUNC|O_CREATE\<close> (the file is emptied).
\<close>

definition os_OpenFile :: "path \<Rightarrow> openflag \<Rightarrow> world \<Rightarrow> (error + osfile) \<times> world" where
  "os_OpenFile p flag s =
     (let s1 = sys (SysOpenFile p flag) s
      in if faults s (SysOpenFile p flag) then (Inl (PathError ''open'' p), s1)
         else (Inr \<lparr>Name = p, fdnum = nextFd s\<rparr>,
               s1\<lparr>nextFd := nextFd s + 1,
                  files := (case flag of
                              O_TRUNC_CREATE \<Rightarrow> AList.update p (Plain []) (files s)
                            | O_APPEND_CREATE \<Rightarrow>
                                (case map_of (files s) p of
                                   None \<Rightarrow> AList.update p (Plain []) (files s)
                                 | Some c \<Rightarrow> files s))\<rparr>))"

text \<open>\<^verbatim>\<open>os.Open\<close> of a file, for reading.\<close>

definition os_Open :: "path \<Rightarrow> world \<Rightarrow> (error + osfile) \<times> world" where
  "os_Open p s =
     (let s1 = sys (SysOpen p) s
      in if faults s (SysOpen p) \<or> map_of (files s) p = None then (Inl (PathError ''open'' p), s1)
         else (Inr \<lparr>Name = p, fdnum = nextFd s\<rparr>, s1\<lparr>nextFd := nextFd s + 1\<rparr>))"

text \<open>\<^verbatim>\<open>os.Open\<close> of a directory.\<close>

definition os_OpenDir :: "path \<Rightarrow> world \<Rightarrow> (error + osfile) \<times> world" where
  "os_OpenDir p s =
     (let s1 = sys (SysOpen p) s
      in if faults s (SysOpen p) then (Inl (PathError ''open'' p), s1)
         else (Inr \<lparr>Name = p, fdnum = nextFd s\<rparr>, s1\<lparr>nextFd := nextFd s + 1\<rparr>))"

definition dirEntries :: "path \<Rightarrow> world \<Rightarrow> string list" where
  "dirEntries dir s = map (\<lambda>e. Base (fst e)) (filter (\<lambda>e. Dir (fst e) = dir) (files s))"

text \<open>\<^verbatim>\<open>File.Readdirnames(-1)\<close>: the names in the directory.\<close>

definition Readdirnames :: "osfile \<Rightarrow> world \<Rightarrow> (error + string list) \<times> world" where
  "Readdirnames d s =
     (let s1 = sys (SysReaddirnames (Name d)) s
      in if faults s (SysReaddirnames (Name d)) then (Inl (PathError ''readdirent'' (Name d)), s1)
         else (Inr (dirEntries (Name d) s), s1))"

text \<open>
  \<^verbatim>\<open>filepath.Glob(dir + "/*")\<close> for a directory name without pattern characters: the
  entries of the directory, each joined to the directory.  Its one error is
  \<^verbatim>\<open>ErrBadPattern\<close>.
\<close>

definition Glob :: "path \<Rightarrow> world \<Rightarrow> (error + path list) \<times> world" where
  "Glob dir s =
     (let s1 = sys (SysGlob (dir @ ''/*'')) s
      in if faults s (SysGlob (dir @ ''/*'')) then (Inl ErrBadPattern, s1)
         else (Inr (map (Join dir) (dirEntries dir s)), s1))"

text \<open>
  \<^verbatim>\<open>io.Copy(gzfile, rawfile)\<close>: the gzip stream of the source's content goes to the
  target, unfinished; a failed copy leaves what was there.  Closing the gzip writer
  finishes the stream; when the close is refused the stream stays unfinished.
\<close>

definition io_Copy :: "path \<Rightarrow> path \<Rightarrow> world \<Rightarrow> error option \<times> world" where
  "io_Copy dst src s =
     (let s1 = sys (SysCopy dst src) s
      in if faults s (SysCopy dst src) then (Some (PathError ''write'' dst), s1)
         else case map_of (files s) src of
                None \<Rightarrow> (Some (PathError ''read'' src), s1)
              | Some c \<Rightarrow> (None, s1\<lparr>files := AList.update dst (GzPartial c) (files s)\<rparr>))"

definition gz_Close :: "path \<Rightarrow> world \<Rightarrow> world" where
  "gz_Close dst s =
     (let s1 = sys (SysGzClose dst) (sys (SysGzFlush dst) s)
      in if faults s (SysGzClose dst) then s1
         else case map_of (files s) dst of
                Some (GzPartial c) \<Rightarrow> s1\<lparr>files := AList.update dst (Gz c) (files s)\<rparr>
              | _ \<Rightarrow> s1)"

definition file_Close :: "osfile \<Rightarrow> world \<Rightarrow> world" where
  "file_Close f s = sys (SysClose f) s"

text \<open>\<^verbatim>\<open>os.Remove\<close>: fails when refused or when the path is missing.\<close>

definition os_Remove :: "path \<Rightarrow> world \<Rightarrow> error option \<times> world" where
  "os_Remove p s =
     (let s1 = sys (SysRemove p) s
      in if faults s (SysRemove p) \<or> map_of (files s) p = None
         then (Some (PathError ''remove'' p), s1)
         else (None, s1\<lparr>files := AList.delete p (files s)\<rparr>))"

section \<open>The logger\<close>

text \<open>
  \<^verbatim>\<open>RotateConfig\<close> of \<^verbatim>\<open>log.go\<close>; \<^verbatim>\<open>LogParam\<close> of \<^verbatim>\<open>part_001\<close> has the same three
  fields.  \<^verbatim>\<open>RotateConfig\<close> of \<^verbatim>\<open>part_000\<close> has a fourth, \<^verbatim>\<open>StartRoutine\<close>, which only its
  \<^verbatim>\<open>New\<close> reads.
\<close>

record RotateConfig =
  Rotate :: int64
  Duration :: int64
  Compress :: bool

type_synonym LogParam = RotateConfig

record RotateConfig_000 = RotateConfig +
  StartRoutine :: bool

text \<open>
  The fields every copy of \<^verbatim>\<open>Logger\<close> has: the level, the suffix format and the output
  of the embedded \<^verbatim>\<open>*log.Logger\<close>.  \<open>Logger\<close> adds the fields of \<^verbatim>\<open>log.go\<close> (\<open>None\<close> is the
  nil pointer or the nil channel), \<open>Logger_001\<close> those of \<^verbatim>\<open>part_001\<close>.
\<close>

record Logger_base =
  Level :: Level
  suffixFormat :: string
  out :: writer

record Logger = Logger_base +
  w :: writer
  rotateCfg :: "RotateConfig option"
  rotateCh :: "nat option"

record Logger_001 = Logger_base +
  param :: LogParam
  fileName :: path
  lastSuffix :: string
  fd :: "osfile option"
  compressing :: "32 word"
  rotateWork :: bool

text \<open>
  \<^verbatim>\<open>func (l *Logger) log(level, format, v...)\<close>: \<open>diag\<close> takes every record handed to
  \<^verbatim>\<open>log\<close>, \<open>written\<close> those that pass the level filter and reach \<^verbatim>\<open>Output\<close>.
\<close>

definition Logger_log :: "Level \<Rightarrow> string \<Rightarrow> string list \<Rightarrow> 'a Logger_base_scheme \<Rightarrow> world \<Rightarrow> world" where
  "Logger_log level format v l s =
     (let s1 = s\<lparr>diag := diag s @ [(level, format, v)]\<rparr>
      in if level < Level l then s1 else s1\<lparr>written := written s1 @ [(level, format, v)]\<rparr>)"

definition Logger_Error :: "string \<Rightarrow> string list \<Rightarrow> 'a Logger_base_scheme \<Rightarrow> world \<Rightarrow> world" where
  "Logger_Error format v l s = Logger_log LevelError format v l s"

text \<open>\<^verbatim>\<open>SetOutput\<close> of \<^verbatim>\<open>log.go\<close> sets \<^verbatim>\<open>l.w\<close> and the embedded logger's output.\<close>

definition SetOutput :: "writer \<Rightarrow> Logger \<Rightarrow> Logger" where
  "SetOutput x l = l\<lparr>w := x, out := x\<rparr>"

section \<open>\<^verbatim>\<open>log.go\<close>: rotation, compression, retention, scheduling\<close>

text \<open>
  A result \<open>None\<close> of a function of this section is the panic of a nil \<^verbatim>\<open>rotateCfg\<close>
  being dereferenced.
\<close>

text \<open>
  \<^verbatim>\<open>func (l *Logger) compress(path string) (err error)\<close>.  The deferred function closes
  what was opened, and removes \<open>path\<close> when the named result \<open>err\<close> is nil; the results
  of the flush, of the closes and of the removal are discarded.
\<close>

definition compress :: "path \<Rightarrow> 'a Logger_base_scheme \<Rightarrow> world \<Rightarrow> error option \<times> world" where
  "compress p l s =
     (case os_Open p s of
        (Inl e, s1) \<Rightarrow> (Some e, Logger_Error ''open file for compress err:%s'' [errText e] l s1)
      | (Inr rawfile, s1) \<Rightarrow>
          (case os_OpenFile (p @ ''.gz'') O_TRUNC_CREATE s1 of
             (Inl e, s2) \<Rightarrow>
               (Some e, file_Close rawfile (Logger_Error ''open gz file err:%s'' [errText e] l s2))
           | (Inr gzf, s2) \<Rightarrow>
               (case io_Copy (p @ ''.gz'') p s2 of
                  (Some e, s3) \<Rightarrow>
                    (Some e,
                     file_Close gzf (gz_Close (p @ ''.gz'') (file_Close rawfile
                       (Logger_Error ''write gz file:%s, err:%s'' [p @ ''.gz'', errText e] l s3))))
                | (None, s3) \<Rightarrow>
                    (None,
                     snd (os_Remove p
                       (file_Close gzf (gz_Close (p @ ''.gz'') (file_Close rawfile s3))))))))"

text \<open>
  \<^verbatim>\<open>func (l *Logger) isOverdue(now time.Time, ts string) (due bool)\<close>.  The product of the
  duration and the count is an \<^verbatim>\<open>int64\<close> product: it wraps around.  (\<^verbatim>\<open>part_000\<close> has
  the same body and reads the clock itself, after parsing.)
\<close>

definition isOverdue :: "Time \<Rightarrow> string \<Rightarrow> Logger \<Rightarrow> world \<Rightarrow> (bool \<times> world) option" where
  "isOverdue now ts l s =
     (case ParseInLocation (zone s) (suffixFormat l) ts of
        None \<Rightarrow> Some (False, Logger_Error ''parse time err. time-str:%s, err:%s'' [ts, ''parsing time''] l s)
      | Some wt \<Rightarrow>
          (case rotateCfg l of
             None \<Rightarrow> None
           | Some cfg \<Rightarrow> Some (sint (Duration cfg * Rotate cfg) < Sub now wt, s)))"

text \<open>
  \<^verbatim>\<open>func (l *Logger) cleanOldLogs(now time.Time, fileName string) (err error)\<close> and the
  loop over the paths that \<^verbatim>\<open>Glob\<close> returned.
\<close>

fun cleanLoop :: "regex \<Rightarrow> Time \<Rightarrow> path list \<Rightarrow> Logger \<Rightarrow> world \<Rightarrow> world option" where
  "cleanLoop rx now [] l s = Some s"
| "cleanLoop rx now (fn # fns) l s =
     (let match = FindString rx fn
      in if 0 < length match
         then (case isOverdue now match l s of
                 None \<Rightarrow> None
               | Some (due, s1) \<Rightarrow>
                   if due then cleanLoop rx now fns l (snd (os_Remove fn s1))
                   else cleanLoop rx now fns l s1)
         else cleanLoop rx now fns l s)"

definition cleanOldLogs :: "Time \<Rightarrow> path \<Rightarrow> Logger \<Rightarrow> world \<Rightarrow> (error option \<times> world) option" where
  "cleanOldLogs now fname l s =
     (let dir = Dir fname
      in case Glob dir s of
           (Inl e, s1) \<Rightarrow> Some (Some e, Logger_Error ''fail in Glob dir:%s, err:%s'' [dir, errText e] l s1)
         | (Inr paths, s1) \<Rightarrow>
             map_option (Pair None) (cleanLoop (Digits (length (suffixFormat l))) now paths l s1))"

text \<open>
  \<^verbatim>\<open>func (l *Logger) Rotate() (err error)\<close>, with the reading of the clock as the
  argument \<open>now\<close>.  A writer that is not an \<^verbatim>\<open>*os.File\<close> returns nil at once.  The
  goroutine of the last lines is added to \<open>spawned\<close>.
\<close>

definition Logger_Rotate :: "Time \<Rightarrow> Logger \<Rightarrow> world \<Rightarrow> (error option \<times> Logger \<times> world) option" where
  "Logger_Rotate now l s =
     (case rotateCfg l of
        None \<Rightarrow> None
      | Some cfg \<Rightarrow>
          (let l1 = l\<lparr>suffixFormat := (if sint (Duration cfg) < sint Minute then formatSec else formatMin)\<rparr>
           in case w l1 of
                OtherWriter \<Rightarrow> Some (None, l1, s)
              | FileWriter f \<Rightarrow>
                  (let fname = Name f;
                       suffix = Format (zone s) (Truncate now (sint (Duration cfg))) (suffixFormat l1);
                       targetLogName = fname @ ''.'' @ suffix
                   in case os_Rename fname targetLogName s of
                        (Some e, s1) \<Rightarrow>
                          Some (Some e, l1, Logger_Error ''rename fail: %s'' [errText e] l1 s1)
                      | (None, s1) \<Rightarrow>
                          (case os_OpenFile fname O_APPEND_CREATE s1 of
                             (Inl e, s2) \<Rightarrow>
                               Some (Some e, l1,
                                     snd (os_Rename targetLogName fname
                                            (Logger_Error ''open fail: %s'' [errText e] l1 s2)))
                           | (Inr newFd, s2) \<Rightarrow>
                               Some (None, SetOutput (FileWriter newFd) l1,
                                     go (GoHousekeeping targetLogName now fname)
                                        (file_Close f s2))))))"

text \<open>\<^verbatim>\<open>closeChannel\<close>, \<^verbatim>\<open>Stop\<close> and \<^verbatim>\<open>StartRotate\<close>.\<close>

definition closeChannel :: "Logger \<Rightarrow> world \<Rightarrow> Logger \<times> world" where
  "closeChannel l s =
     (case rotateCh l of
        None \<Rightarrow> (l, s)
      | Some c \<Rightarrow> (l\<lparr>rotateCh := None\<rparr>, s\<lparr>closedCh := c # closedCh s\<rparr>))"

definition Stop :: "Logger \<Rightarrow> world \<Rightarrow> Logger \<times> world" where
  "Stop l s = closeChannel l s"

definition StartRotate :: "Logger \<Rightarrow> world \<Rightarrow> error option \<times> Logger \<times> world" where
  "StartRotate l s =
     (case rotateCfg l of
        None \<Rightarrow> (Some errInvalidRotateConfig, l, s)
      | Some cfg \<Rightarrow>
          if sint (Rotate cfg) \<le> 0 \<or> sint (Duration cfg) < sint (1 * Second)
          then (Some errInvalidRotateConfig, l, s)
          else (let (l1, s1) = closeChannel l s
                in (None, l1\<lparr>rotateCh := Some (nextCh s1)\<rparr>,
                    go GoRotateLoop (s1\<lparr>nextCh := nextCh s1 + 1\<rparr>))))"

text \<open>
  The goroutine of \<^verbatim>\<open>StartRotate\<close>: at the head of an iteration it reads the clock and
  \<^verbatim>\<open>l.rotateCh\<close>, then waits in \<^verbatim>\<open>select\<close> for the channel (a closed channel is ready,
  a nil channel never is) or for the timer; once one is ready it calls \<^verbatim>\<open>Rotate\<close> and
  starts the next iteration.  \<open>loopRun\<close> runs the goroutine at the time \<open>now\<close> until it
  waits again.  The body of the \<^verbatim>\<open>for\<close> has no \<^verbatim>\<open>break\<close> and no \<^verbatim>\<open>return\<close>.
\<close>

datatype loopPc = LoopHead | LoopSelect "nat option" Time

definition loopEnter :: "Time \<Rightarrow> Logger \<Rightarrow> loopPc option" where
  "loopEnter now l =
     (case rotateCfg l of
        None \<Rightarrow> None
      | Some cfg \<Rightarrow>
          Some (LoopSelect (rotateCh l)
                  (Truncate (now + sint (Duration cfg)) (sint (Duration cfg)))))"

definition selectReady :: "nat option \<Rightarrow> Time \<Rightarrow> Time \<Rightarrow> world \<Rightarrow> bool" where
  "selectReady ch next now s =
     ((case ch of None \<Rightarrow> False | Some c \<Rightarrow> c \<in> set (closedCh s)) \<or> next \<le> now)"

fun loopRun :: "Time \<Rightarrow> loopPc \<Rightarrow> Logger \<Rightarrow> world \<Rightarrow> (loopPc \<times> Logger \<times> world) option" where
  "loopRun now LoopHead l s = map_option (\<lambda>pc. (pc, l, s)) (loopEnter now l)"
| "loopRun now (LoopSelect ch next) l s =
     (if selectReady ch next now s
      then (case Logger_Rotate now l s of
              None \<Rightarrow> None
            | Some (e, l1, s1) \<Rightarrow> map_option (\<lambda>pc. (pc, l1, s1)) (loopEnter now l1))
      else Some (LoopSelect ch next, l, s))"

section \<open>\<^verbatim>\<open>part_000\<close>: the retention sweep with the \<^verbatim>\<open>.gz\<close> pattern, and the routine started by \<^verbatim>\<open>New\<close>\<close>



text \<open>
  \<^verbatim>\<open>New\<close> of \<^verbatim>\<open>part_000\<close> returns the logger, and nothing else; before that it starts
  \<^verbatim>\<open>startRotateRoutine\<close> in a goroutine when a configuration is given whose
  \<^verbatim>\<open>StartRoutine\<close> is set.  The logger keeps the pointer it was given: the three fields
  that its methods read.
\<close>

definition New_000 :: "writer \<Rightarrow> Level \<Rightarrow> RotateConfig_000 option \<Rightarrow> world \<Rightarrow> Logger \<times> world" where
  "New_000 x level rc s =
     (let l = \<lparr>Level = level, suffixFormat = [], out = x, w = x,
               rotateCfg = map_option (\<lambda>c. \<lparr>Rotate = Rotate c, Duration = Duration c,
                                              Compress = Compress c\<rparr>) rc,
               rotateCh = None\<rparr>
      in (l, case rc of
               None \<Rightarrow> s
             | Some c \<Rightarrow> if StartRoutine c then go GoStartRotateRoutine s else s))"

text \<open>
  \<^verbatim>\<open>func (l *Logger) startRotateRoutine()\<close> of \<^verbatim>\<open>part_000\<close> has no result.  It returns at
  its first line when the configuration is nil, the count is zero or less, or the duration
  is under one second (\<open>RoutineReturned\<close>); otherwise it enters its \<^verbatim>\<open>for\<close> loop of
  \<^verbatim>\<open>time.Sleep\<close> and \<^verbatim>\<open>Rotate\<close>, which has no exit (\<open>RoutineLooping\<close>).
\<close>

datatype routine = RoutineReturned | RoutineLooping

definition startRotateRoutine_000 :: "Logger \<Rightarrow> routine" where
  "startRotateRoutine_000 l =
     (case rotateCfg l of
        None \<Rightarrow> RoutineReturned
      | Some cfg \<Rightarrow>
          if sint (Rotate cfg) \<le> 0 \<or> sint (Duration cfg) < sint (1 * Second) then RoutineReturned
          else RoutineLooping)"

section \<open>\<^verbatim>\<open>part_001\<close>: the stored suffix and the compression flag\<close>

text \<open>
  \<^verbatim>\<open>genSuffixStr\<close> of \<^verbatim>\<open>part_001\<close> formats the clock reading \<open>now\<close> with the suffix format,
  and is empty while no format is set.
\<close>

definition genSuffixStr_001 :: "Time \<Rightarrow> Logger_001 \<Rightarrow> world \<Rightarrow> string" where
  "genSuffixStr_001 now l s =
     (if suffixFormat l = [] then [] else Format (zone s) now (suffixFormat l))"

text \<open>
  \<^verbatim>\<open>func (l *Logger) compress(path string)\<close> of \<^verbatim>\<open>part_001\<close>.  It starts with
  \<^verbatim>\<open>atomic.CompareAndSwapInt32(&l.compressing, 0, 1)\<close> and returns when the swap fails;
  the deferred \<^verbatim>\<open>CompareAndSwapInt32(&l.compressing, 1, 0)\<close> runs last.  The body removes
  \<open>path\<close> when \<^verbatim>\<open>suc\<close> was set, which the last line before the return does.
\<close>

definition CompareAndSwapInt32 :: "32 word \<Rightarrow> 32 word \<Rightarrow> 32 word \<Rightarrow> bool \<times> 32 word" where
  "CompareAndSwapInt32 v old new = (if v = old then (True, new) else (False, v))"

definition compressBody_001 :: "path \<Rightarrow> Logger_001 \<Rightarrow> world \<Rightarrow> bool \<times> world" where
  "compressBody_001 p l s =
     (case os_Open p s of
        (Inl e, s1) \<Rightarrow>
          (False, Logger_Error ''Failed to open raw file. file:%s, err:%s'' [p, errText e] l s1)
      | (Inr rawfile, s1) \<Rightarrow>
          (case os_OpenFile (p @ ''.gz'') O_TRUNC_CREATE s1 of
             (Inl e, s2) \<Rightarrow>
               (False,
                file_Close rawfile
                  (Logger_Error ''Failed to create gz file. file:%s, err:%s'' [p @ ''.gz'', errText e] l s2))
           | (Inr gzf, s2) \<Rightarrow>
               (case io_Copy (p @ ''.gz'') p s2 of
                  (Some e, s3) \<Rightarrow>
                    (False,
                     file_Close gzf (gz_Close (p @ ''.gz'') (file_Close rawfile
                       (Logger_Error ''Failed to write gz file. file:%s, err:%s''
                          [p @ ''.gz'', errText e] l s3))))
                | (None, s3) \<Rightarrow>
                    (True,
                     snd (os_Remove p
                       (file_Close gzf (gz_Close (p @ ''.gz'') (file_Close rawfile s3))))))))"

definition compress_001 :: "path \<Rightarrow> Logger_001 \<Rightarrow> world \<Rightarrow> Logger_001 \<times> world" where
  "compress_001 p l s =
     (case CompareAndSwapInt32 (compressing l) 0 1 of
        (False, v) \<Rightarrow> (l, s)
      | (True, v) \<Rightarrow>
          (let l1 = l\<lparr>compressing := v\<rparr>;
               s1 = snd (compressBody_001 p l1 s)
           in (l1\<lparr>compressing := snd (CompareAndSwapInt32 (compressing l1) 1 0)\<rparr>, s1)))"

text \<open>
  Goroutines that call \<^verbatim>\<open>compress\<close> at the same time, interleaved at the two atomic
  operations: \<open>Enter p\<close> is a goroutine calling \<^verbatim>\<open>compress(p)\<close> and doing the first swap
  (it is in flight when the swap succeeded, and has returned otherwise); \<open>Leave\<close> is the
  job that has been in flight longest running its body and its deferred swap.
\<close>

datatype compressEvent = Enter path | Leave

fun compressStep :: "compressEvent \<Rightarrow> Logger_001 \<times> world \<times> path list \<Rightarrow> Logger_001 \<times> world \<times> path list" where
  "compressStep (Enter p) (l, s, inflight) =
     (case CompareAndSwapInt32 (compressing l) 0 1 of
        (False, v) \<Rightarrow> (l, s, inflight)
      | (True, v) \<Rightarrow> (l\<lparr>compressing := v\<rparr>, s, inflight @ [p]))"
| "compressStep Leave (l, s, []) = (l, s, [])"
| "compressStep Leave (l, s, p # inflight) =
     (l\<lparr>compressing := snd (CompareAndSwapInt32 (compressing l) 1 0)\<rparr>,
      snd (compressBody_001 p l s), inflight)"

definition compressRun :: "compressEvent list \<Rightarrow> Logger_001 \<times> world \<times> path list \<Rightarrow> Logger_001 \<times> world \<times> path list" where
  "compressRun evs c = foldl (\<lambda>c e. compressStep e c) c evs"

text \<open>
  \<^verbatim>\<open>func (l *Logger) rotate() error\<close> of \<^verbatim>\<open>part_001\<close>, with the reading of the clock as
  the argument \<open>now\<close>.  When the reopening fails, the error returned is that of the
  renaming back (a new variable \<^verbatim>\<open>err\<close> declared in the branch).
\<close>

definition rotate_001 :: "Time \<Rightarrow> Logger_001 \<Rightarrow> world \<Rightarrow> error option \<times> Logger_001 \<times> world" where
  "rotate_001 now l s =
     (if Duration (param l) = 0 \<or> fd l = None \<or> fileName l = [] then (None, l, s)
      else let suffix = genSuffixStr_001 now l s
           in if lastSuffix l = [] then (None, l\<lparr>lastSuffix := suffix\<rparr>, s)
              else if lastSuffix l = suffix then (None, l, s)
              else let nf = fileName l @ ''.'' @ suffix
                   in case os_Rename (fileName l) nf s of
                        (Some e, s1) \<Rightarrow>
                          (Some e, l,
                           Logger_Error ''Failed to rename. oldPath:%s, newPath:%s, err:%s''
                             [fileName l, nf, errText e] l s1)
                      | (None, s1) \<Rightarrow>
                          (case os_OpenFile (fileName l) O_APPEND_CREATE s1 of
                             (Inl e, s2) \<Rightarrow>
                               (let (err, s3) = os_Rename nf (fileName l)
                                      (Logger_Error ''Failed to open file. file:%s, err:%s''
                                         [fileName l, errText e] l s2)
                                in (err, l, s3))
                           | (Inr newFd, s2) \<Rightarrow>
                               (let l1 = l\<lparr>out := FileWriter newFd, fd := Some newFd\<rparr>;
                                    s3 = (case fd l of None \<Rightarrow> s2 | Some oldFd \<Rightarrow> file_Close oldFd s2);
                                    l2 = l1\<lparr>lastSuffix := suffix\<rparr>;
                                    s4 = (if Compress (param l2) then go (GoCompress nf) s3 else s3)
                                in (None, l2, go GoDeleteOverdue s4))))"

text \<open>
  \<^verbatim>\<open>isOverdue\<close> of \<^verbatim>\<open>part_001\<close>: the parse failure is logged and the function goes on,
  with \<^verbatim>\<open>wt\<close> the zero \<^verbatim>\<open>time.Time\<close> that \<^verbatim>\<open>ParseInLocation\<close> returns beside an error.
  \<^verbatim>\<open>deleteOverdue\<close> returns at once while the file name or the suffix format is empty,
  and always looks for \<^verbatim>\<open>[0-9]{n}\.gz\<close>.
\<close>

definition zeroTime :: Time where
  "zeroTime = - (unixToInternal * 1000000000)"

definition isOverdue_001 :: "Time \<Rightarrow> string \<Rightarrow> Logger_001 \<Rightarrow> world \<Rightarrow> bool \<times> world" where
  "isOverdue_001 now ts l s =
     (case ParseInLocation (zone s) (suffixFormat l) ts of
        None \<Rightarrow>
          (sint (Duration (param l) * Rotate (param l)) < Sub now zeroTime,
           Logger_Error ''Failed to parse time. ts:%s, err:%s'' [ts, ''parsing time''] l s)
      | Some wt \<Rightarrow> (sint (Duration (param l) * Rotate (param l)) < Sub now wt, s))"

fun deleteLoop_001 :: "regex \<Rightarrow> Time \<Rightarrow> path \<Rightarrow> string list \<Rightarrow> Logger_001 \<Rightarrow> world \<Rightarrow> world" where
  "deleteLoop_001 rx now dir [] l s = s"
| "deleteLoop_001 rx now dir (fn # fns) l s =
     (let fs = FindString rx fn
      in if fs \<noteq> []
         then (case isOverdue_001 now (Replace1 fs ''.gz'' []) l s of
                 (due, s1) \<Rightarrow>
                   if due then deleteLoop_001 rx now dir fns l (snd (os_Remove (Join dir fn) s1))
                   else deleteLoop_001 rx now dir fns l s1)
         else deleteLoop_001 rx now dir fns l s)"

definition deleteOverdue_001 :: "Time \<Rightarrow> Logger_001 \<Rightarrow> world \<Rightarrow> world" where
  "deleteOverdue_001 now l s =
     (if fileName l = [] \<or> suffixFormat l = [] then s
      else let dir = Dir (fileName l)
           in case os_OpenDir dir s of
                (Inl e, s1) \<Rightarrow>
                  Logger_Error ''Failed to open directory. dir:%s, err:%s'' [errText e, errText e] l s1
              | (Inr d, s1) \<Rightarrow>
                  (case Readdirnames d s1 of
                     (Inl e, s2) \<Rightarrow>
                       file_Close d (Logger_Error ''Failed to read directory. dir:%s, err:%s''
                                       [errText e, errText e] l s2)
                   | (Inr names, s2) \<Rightarrow>
                       file_Close d
                         (deleteLoop_001 (DigitsGz (length (suffixFormat l))) now dir names l s2)))"

text \<open>
  \<^verbatim>\<open>func (l *Logger) SetLogParam(param *LogParam)\<close> of \<^verbatim>\<open>part_001\<close>: four comparisons for
  equality, and no final \<^verbatim>\<open>else\<close>.
\<close>

definition SetLogParam_001 :: "Time \<Rightarrow> LogParam \<Rightarrow> Logger_001 \<Rightarrow> world \<Rightarrow> Logger_001 \<times> world" where
  "SetLogParam_001 now p l s =
     (let l1 = l\<lparr>param := p\<rparr>;
          l2 = (if Duration (param l1) = 24 * Hour then l1\<lparr>suffixFormat := formatDay\<rparr>
                else if Duration (param l1) = Hour then l1\<lparr>suffixFormat := formatHour\<rparr>
                else if Duration (param l1) = Minute then l1\<lparr>suffixFormat := formatMin\<rparr>
                else if Duration (param l1) = Second then l1\<lparr>suffixFormat := formatSec\<rparr>
                else l1);
          l3 = (if lastSuffix l2 = [] then l2\<lparr>lastSuffix := genSuffixStr_001 now l2 s\<rparr> else l2)
      in (l3, if 0 < sint (Duration (param l3)) then go GoDoRotate s else s))"

text \<open>The \<^verbatim>\<open>Logger\<close> that \<^verbatim>\<open>New\<close> of \<^verbatim>\<open>part_001\<close> returns.\<close>

definition New_001 :: "writer \<Rightarrow> Level \<Rightarrow> Logger_001" where
  "New_001 x level =
     \<lparr>Level = level, suffixFormat = [], out = x,
      param = \<lparr>Rotate = 0, Duration = 0, Compress = False\<rparr>,
      fileName = [], lastSuffix = [], fd = None, compressing = 0, rotateWork = False\<rparr>"

section \<open>Notions used in the statements\<close>

text \<open>The system calls a function made: the trace it reached, less the trace it started from.\<close>

definition newTrace :: "world \<Rightarrow> world \<Rightarrow> syscall list" where
  "newTrace s s' = drop (length (trace s)) (trace s')"

definition isRename :: "syscall \<Rightarrow> bool" where
  "isRename c = (case c of SysRename a b \<Rightarrow> True | _ \<Rightarrow> False)"

text \<open>
  The archive path of \<^verbatim>\<open>Rotate\<close> (\<^verbatim>\<open>log.go\<close>): the name of the file behind the writer, a
  dot, and the clock reading truncated to the duration and formatted.
\<close>

definition targetLogName :: "Time \<Rightarrow> Logger \<Rightarrow> world \<Rightarrow> path" where
  "targetLogName now l s =
     (case (rotateCfg l, w l) of
        (Some cfg, FileWriter f) \<Rightarrow>
          Name f @ ''.'' @ Format (zone s) (Truncate now (sint (Duration cfg)))
                             (if sint (Duration cfg) < sint Minute then formatSec else formatMin)
      | _ \<Rightarrow> [])"

text \<open>
  The three steps whose error \<^verbatim>\<open>compress\<close> looks at all succeed: the source exists and
  its opening, the creation of the target and the copy are not refused.  This says nothing
  of the flush and the closes that finish the \<^verbatim>\<open>.gz\<close> file, whose results the code
  discards.
\<close>

definition checkedStepsOk :: "path \<Rightarrow> world \<Rightarrow> bool" where
  "checkedStepsOk p s =
     (map_of (files s) p \<noteq> None \<and> \<not> faults s (SysOpen p)
      \<and> \<not> faults s (SysOpenFile (p @ ''.gz'') O_TRUNC_CREATE)
      \<and> \<not> faults s (SysCopy (p @ ''.gz'') p))"

text \<open>
  The flag \<^verbatim>\<open>compressing\<close> is 0 with no job in flight, or 1 with exactly one.
\<close>

definition singleFlight :: "Logger_001 \<times> world \<times> path list \<Rightarrow> bool" where
  "singleFlight c =
     (case c of (l, s, inflight) \<Rightarrow>
        (compressing l = 0 \<and> inflight = []) \<or> (compressing l = 1 \<and> length inflight = 1))"

text \<open>
  What \<^verbatim>\<open>isOverdue\<close> answers for a label, as a function of the label alone (with the
  \<^verbatim>\<open>int64\<close> product and the saturating difference of the code), and the record it
  logs for a label that does not parse.
\<close>

definition dueLabel :: "Time \<Rightarrow> Logger \<Rightarrow> int \<Rightarrow> string \<Rightarrow> bool" where
  "dueLabel now l z ts =
     (case ParseInLocation z (suffixFormat l) ts of
        None \<Rightarrow> False
      | Some wt \<Rightarrow>
          (case rotateCfg l of
             None \<Rightarrow> False
           | Some cfg \<Rightarrow> sint (Duration cfg * Rotate cfg) < Sub now wt))"

definition parseErrRecord :: "string \<Rightarrow> logrecord" where
  "parseErrRecord ts = (LevelError, ''parse time err. time-str:%s, err:%s'', [ts, ''parsing time''])"

text \<open>
  The two loops of the retention sweep have one shape: for each name that is a candidate,
  \<^verbatim>\<open>isOverdue\<close> is asked about its label and the target is removed when it says so.
  \<open>sweepGen\<close> is that shape, \<open>sweepRemoved\<close> and \<open>sweepUnparsed\<close> are the names it removes
  and the names whose label does not parse.
\<close>

fun sweepGen :: "(string \<Rightarrow> bool) \<Rightarrow> (string \<Rightarrow> string) \<Rightarrow> (string \<Rightarrow> path) \<Rightarrow> Time
    \<Rightarrow> string list \<Rightarrow> Logger \<Rightarrow> world \<Rightarrow> world option" where
  "sweepGen cand lab tgt now [] l s = Some s"
| "sweepGen cand lab tgt now (fn # fns) l s =
     (if cand fn
      then (case isOverdue now (lab fn) l s of
              None \<Rightarrow> None
            | Some (due, s1) \<Rightarrow>
                if due then sweepGen cand lab tgt now fns l (snd (os_Remove (tgt fn) s1))
                else sweepGen cand lab tgt now fns l s1)
      else sweepGen cand lab tgt now fns l s)"

definition sweepRemoved :: "(string \<Rightarrow> bool) \<Rightarrow> (string \<Rightarrow> string) \<Rightarrow> Time \<Rightarrow> Logger \<Rightarrow> int
    \<Rightarrow> string list \<Rightarrow> string list" where
  "sweepRemoved cand lab now l z fns = filter (\<lambda>fn. cand fn \<and> dueLabel now l z (lab fn)) fns"

definition sweepUnparsed :: "(string \<Rightarrow> bool) \<Rightarrow> (string \<Rightarrow> string) \<Rightarrow> Logger \<Rightarrow> int
    \<Rightarrow> string list \<Rightarrow> string list" where
  "sweepUnparsed cand lab l z fns =
     filter (\<lambda>fn. cand fn \<and> ParseInLocation z (suffixFormat l) (lab fn) = None) fns"

definition isRemove :: "syscall \<Rightarrow> bool" where
  "isRemove c = (case c of SysRemove p \<Rightarrow> True | _ \<Rightarrow> False)"




text \<open>Concrete states for the examples.\<close>

definition exFile :: osfile where
  "exFile = \<lparr>Name = ''app.log'', fdnum = 3\<rparr>"

definition exWorld :: "(path \<times> content) list \<Rightarrow> (syscall \<Rightarrow> bool) \<Rightarrow> world" where
  "exWorld fs flt =
     \<lparr>files = fs, faults = flt, nextFd = 4, trace = [], diag = [], written = [], spawned = [],
      nextCh = 0, closedCh = [], zone = 0\<rparr>"

definition exLogger :: "RotateConfig \<Rightarrow> Logger" where
  "exLogger cfg =
     \<lparr>Level = LevelDebug, suffixFormat = [], out = FileWriter exFile,
      w = FileWriter exFile, rotateCfg = Some cfg, rotateCh = None\<rparr>"

definition exLogger_001 :: "string \<Rightarrow> Logger_001" where
  "exLogger_001 stored =
     \<lparr>Level = LevelDebug, suffixFormat = formatSec, out = FileWriter exFile,
      param = \<lparr>Rotate = 5, Duration = Second, Compress = True\<rparr>,
      fileName = ''app.log'', lastSuffix = stored, fd = Some exFile, compressing = 0,
      rotateWork = True\<rparr>"

definition exNow :: Time where
  "exNow = 1704110400000000000"

definition exLoggerOn :: "path \<Rightarrow> string \<Rightarrow> RotateConfig \<Rightarrow> Logger" where
  "exLoggerOn p layout cfg =
     \<lparr>Level = LevelDebug, suffixFormat = layout, out = FileWriter \<lparr>Name = p, fdnum = 3\<rparr>,
      w = FileWriter \<lparr>Name = p, fdnum = 3\<rparr>, rotateCfg = Some cfg, rotateCh = None\<rparr>"

section \<open>Properties\<close>

subsection \<open>The fields that the primitives leave alone\<close>

lemma sys_fields [simp]:
  "trace (sys c s) = trace s @ [c]" "files (sys c s) = files s" "faults (sys c s) = faults s"
  "zone (sys c s) = zone s" "diag (sys c s) = diag s" "written (sys c s) = written s"
  "spawned (sys c s) = spawned s" "nextFd (sys c s) = nextFd s" "nextCh (sys c s) = nextCh s"
  "closedCh (sys c s) = closedCh s"
  by (simp_all add: sys_def)

lemma go_fields [simp]:
  "trace (go g s) = trace s" "files (go g s) = files s" "faults (go g s) = faults s"
  "zone (go g s) = zone s" "diag (go g s) = diag s" "written (go g s) = written s"
  "spawned (go g s) = spawned s @ [g]" "nextFd (go g s) = nextFd s" "nextCh (go g s) = nextCh s"
  "closedCh (go g s) = closedCh s"
  by (simp_all add: go_def)

lemma Logger_Error_fields [simp]:
  "trace (Logger_Error fmt v l s) = trace s"
  "files (Logger_Error fmt v l s) = files s"
  "faults (Logger_Error fmt v l s) = faults s"
  "zone (Logger_Error fmt v l s) = zone s"
  "spawned (Logger_Error fmt v l s) = spawned s"
  by (simp_all add: Logger_Error_def Logger_log_def Let_def)

lemma Logger_Error_more [simp]:
  "nextFd (Logger_Error fmt v l s) = nextFd s"
  by (simp_all add: Logger_Error_def Logger_log_def Let_def)

lemma file_Close_fields [simp]:
  "trace (file_Close f s) = trace s @ [SysClose f]" "files (file_Close f s) = files s"
  "faults (file_Close f s) = faults s" "zone (file_Close f s) = zone s"
  "diag (file_Close f s) = diag s" "spawned (file_Close f s) = spawned s"
  by (simp_all add: file_Close_def)

lemma os_Rename_fields [simp]:
  "trace (snd (os_Rename a b s)) = trace s @ [SysRename a b]"
  "faults (snd (os_Rename a b s)) = faults s"
  "zone (snd (os_Rename a b s)) = zone s"
  "diag (snd (os_Rename a b s)) = diag s"
  by (simp_all add: os_Rename_def Let_def split: option.splits)

lemma os_OpenFile_fields [simp]:
  "trace (snd (os_OpenFile p fl s)) = trace s @ [SysOpenFile p fl]"
  "faults (snd (os_OpenFile p fl s)) = faults s"
  "zone (snd (os_OpenFile p fl s)) = zone s"
  "diag (snd (os_OpenFile p fl s)) = diag s"
  by (simp_all add: os_OpenFile_def Let_def)

lemma os_OpenFile_Inl:
  "fst (os_OpenFile p fl s) = Inl e \<Longrightarrow> e = PathError ''open'' p"
  by (simp add: os_OpenFile_def Let_def split: if_splits)

lemma gz_Close_fields [simp]:
  "trace (gz_Close d s) = trace s @ [SysGzFlush d, SysGzClose d]"
  "faults (gz_Close d s) = faults s"
  "map_of (files (gz_Close d s)) q = (if q = d then map_of (files (gz_Close d s)) d else map_of (files s) q)"
  by (auto simp add: gz_Close_def Let_def update_conv' split: option.splits content.splits)

lemma newTrace_same [simp]: "newTrace s s = []"
  by (simp add: newTrace_def)

lemma fst_NoneD: "fst x = None \<Longrightarrow> x = (None, snd x)"
  by (cases x) simp

lemma fst_eqD: "fst x = a \<Longrightarrow> x = (a, snd x)"
  by (cases x) simp

subsection \<open>C10: \<^verbatim>\<open>NewLevel\<close>\<close>

lemma map_of_levelNames_None:
  assumes "name \<notin> {''debug'', ''info'', ''notice'', ''warning'', ''error'', ''critical''}"
  shows "map_of levelNames name = None"
  using assms by (simp add: levelNames_def)

text \<open>
  C10.  \<^verbatim>\<open>NewLevel\<close> maps each of the six names \<^verbatim>\<open>debug\<close>, \<^verbatim>\<open>info\<close>, \<^verbatim>\<open>notice\<close>,
  \<^verbatim>\<open>warning\<close>, \<^verbatim>\<open>error\<close>, \<^verbatim>\<open>critical\<close> to its level, the six levels being the
  integers 0 to 5 in this order, and maps every other string to \<^verbatim>\<open>LevelError\<close>.
\<close>

theorem NewLevel_names:
  "NewLevel ''debug'' = LevelDebug \<and> NewLevel ''info'' = LevelInfo \<and>
   NewLevel ''notice'' = LevelNotice \<and> NewLevel ''warning'' = LevelWarning \<and>
   NewLevel ''error'' = LevelError \<and> NewLevel ''critical'' = LevelCritical \<and>
   [LevelDebug, LevelInfo, LevelNotice, LevelWarning, LevelError, LevelCritical] = [0, 1, 2, 3, 4, 5] \<and>
   (\<forall>name. name \<notin> {''debug'', ''info'', ''notice'', ''warning'', ''error'', ''critical''}
      \<longrightarrow> NewLevel name = LevelError)"
proof -
  have known: "NewLevel ''debug'' = LevelDebug" "NewLevel ''info'' = LevelInfo"
    "NewLevel ''notice'' = LevelNotice" "NewLevel ''warning'' = LevelWarning"
    "NewLevel ''error'' = LevelError" "NewLevel ''critical'' = LevelCritical"
    by (simp_all add: NewLevel_def levelNames_def)
  have nums: "[LevelDebug, LevelInfo, LevelNotice, LevelWarning, LevelError, LevelCritical]
      = [0, 1, 2, 3, 4, 5]"
    by (simp add: LevelDebug_def LevelInfo_def LevelNotice_def LevelWarning_def
        LevelError_def LevelCritical_def)
  have other: "NewLevel name = LevelError"
    if "name \<notin> {''debug'', ''info'', ''notice'', ''warning'', ''error'', ''critical''}" for name
    using map_of_levelNames_None [OF that] by (simp add: NewLevel_def)
  from known nums other show ?thesis by (intro conjI allI impI)
qed

theorem NewLevel_names_witness:
  "NewLevel ''verbose'' = LevelError \<and> NewLevel ''Debug'' = LevelError \<and> NewLevel [] = LevelError"
proof -
  note other = NewLevel_names [THEN conjunct2, THEN conjunct2, THEN conjunct2, THEN conjunct2,
      THEN conjunct2, THEN conjunct2, THEN conjunct2, rule_format]
  have a: "NewLevel ''verbose'' = LevelError" by (rule other) simp
  have b: "NewLevel ''Debug'' = LevelError" by (rule other) simp
  have c: "NewLevel [] = LevelError" by (rule other) simp
  from a b c show ?thesis by (intro conjI)
qed

subsection \<open>C1: two rotations within one bucket (\<^verbatim>\<open>Rotate\<close> of \<^verbatim>\<open>log.go\<close>, \<^verbatim>\<open>rotate\<close> of \<^verbatim>\<open>part_001\<close>)\<close>

text \<open>
  Every call of \<^verbatim>\<open>Rotate\<close> of \<^verbatim>\<open>log.go\<close> on a logger that writes to a file returns, and
  its first system call is the rename of the active file to the archive path of the
  current bucket: no label of the last rotation is kept, and nothing is compared.
\<close>

lemma Rotate_always_renames:
  assumes cfg: "rotateCfg l = Some cfg" and wfile: "w l = FileWriter f"
  shows "\<exists>e l' s'. Logger_Rotate now l s = Some (e, l', s')
           \<and> take 1 (newTrace s s') = [SysRename (Name f) (targetLogName now l s)]"
proof -
  let ?tgt = "targetLogName now l s"
  have tgt: "?tgt = Name f @ ''.'' @ Format (zone s) (Truncate now (sint (Duration cfg)))
                             (if sint (Duration cfg) < sint Minute then formatSec else formatMin)"
    by (simp add: targetLogName_def cfg wfile)
  have t1: "trace (snd (os_Rename (Name f) ?tgt s)) = trace s @ [SysRename (Name f) ?tgt]"
    by simp
  show ?thesis
  proof (cases "os_Rename (Name f) ?tgt s")
    case (Pair e s1)
    with t1 have tr1: "trace s1 = trace s @ [SysRename (Name f) ?tgt]" by simp
    show ?thesis
    proof (cases e)
      case (Some err)
      with Pair tr1 tgt show ?thesis
        by (cases "sint (Duration cfg) < sint Minute")
           (simp_all add: Logger_Rotate_def cfg wfile Let_def newTrace_def)
    next
      case None
      obtain r s2 where op: "os_OpenFile (Name f) O_APPEND_CREATE s1 = (r, s2)"
        by (cases "os_OpenFile (Name f) O_APPEND_CREATE s1")
      then have tr2: "trace s2 = trace s1 @ [SysOpenFile (Name f) O_APPEND_CREATE]"
        using os_OpenFile_fields(1) [of "Name f" O_APPEND_CREATE s1] by simp
      from None Pair tr1 tr2 tgt op show ?thesis
        by (cases "sint (Duration cfg) < sint Minute"; cases r)
           (simp_all add: Logger_Rotate_def cfg wfile Let_def newTrace_def)
    qed
  qed
qed

text \<open>
  C1 fails on \<^verbatim>\<open>Rotate\<close> of \<^verbatim>\<open>log.go\<close>.  A logger with buckets of one hour writes to
  \<^verbatim>\<open>app.log\<close>, which holds \<open>first\<close>.  \<^verbatim>\<open>Rotate\<close> is called at 12:00:00 and again at 12:00:01,
  in the same bucket.  Both calls return nil and both rename \<^verbatim>\<open>app.log\<close> to
  \<^verbatim>\<open>app.log.202401011200\<close>: the second call is no no-op, and it replaces the archive of the
  first call, which held \<open>first\<close>, by the file the first call had created, which is
  empty.
\<close>

theorem Rotate_twice_in_bucket_renames_twice:
  "(case Logger_Rotate exNow (exLoggerOn ''app.log'' [] \<lparr>Rotate = 2, Duration = Hour, Compress = False\<rparr>)
           (exWorld [(''app.log'', Plain ''first'')] (\<lambda>c. False)) of
      None \<Rightarrow> False
    | Some (e1, l1, s1) \<Rightarrow>
        (case Logger_Rotate (exNow + 1000000000) l1 s1 of
           None \<Rightarrow> False
         | Some (e2, l2, s2) \<Rightarrow>
             e1 = None \<and> e2 = None
             \<and> map_of (files s1) ''app.log.202401011200'' = Some (Plain ''first'')
             \<and> filter isRename (trace s2)
                 = [SysRename ''app.log'' ''app.log.202401011200'',
                    SysRename ''app.log'' ''app.log.202401011200'']
             \<and> map_of (files s2) ''app.log.202401011200'' = Some (Plain [])))"
  by code_simp

lemma genSuffixStr_001_cong:
  "suffixFormat l' = suffixFormat l \<Longrightarrow> zone s' = zone s
     \<Longrightarrow> genSuffixStr_001 now l' s' = genSuffixStr_001 now l s"
  by (simp add: genSuffixStr_001_def)

lemma rotate_001_same_label:
  assumes "lastSuffix l = genSuffixStr_001 now l s"
  shows "rotate_001 now l s = (None, l, s)"
  using assms by (simp add: rotate_001_def Let_def)

lemma rotate_001_full:
  assumes g: "Duration (param l) \<noteq> 0" "fd l = Some f" "fileName l \<noteq> []"
    and ls: "lastSuffix l \<noteq> []" "lastSuffix l \<noteq> genSuffixStr_001 now l s"
    and rn: "os_Rename (fileName l) (fileName l @ ''.'' @ genSuffixStr_001 now l s) s = (None, sa)"
    and op: "os_OpenFile (fileName l) O_APPEND_CREATE sa = (Inr newFd, sb)"
  shows "\<exists>l1 s1. rotate_001 now l s = (None, l1, s1)
           \<and> lastSuffix l1 = genSuffixStr_001 now l s
           \<and> suffixFormat l1 = suffixFormat l \<and> zone s1 = zone s
           \<and> trace s1 = trace s @ [SysRename (fileName l) (fileName l @ ''.'' @ genSuffixStr_001 now l s),
                                    SysOpenFile (fileName l) O_APPEND_CREATE, SysClose f]"
proof -
  have t1: "trace sa = trace s @ [SysRename (fileName l) (fileName l @ ''.'' @ genSuffixStr_001 now l s)]"
    and z1: "zone sa = zone s"
    using rn os_Rename_fields(1,3) [of "fileName l" "fileName l @ ''.'' @ genSuffixStr_001 now l s" s]
    by simp_all
  have t2: "trace sb = trace sa @ [SysOpenFile (fileName l) O_APPEND_CREATE]"
    and z2: "zone sb = zone sa"
    using op os_OpenFile_fields(1,3) [of "fileName l" O_APPEND_CREATE sa] by simp_all
  show ?thesis
    using g ls rn op by (simp add: rotate_001_def Let_def t1 t2 z1 z2)
qed

text \<open>
  \<^verbatim>\<open>rotate\<close> of \<^verbatim>\<open>part_001\<close> is the copy that stores a label.  Whenever the stored label
  \<^verbatim>\<open>lastSuffix\<close> equals the label computed for the current time, it returns nil and leaves
  the logger and the world as they were.  Hence when a call rotates (the stored label is
  set and differs from the current one, the rename and the reopening succeed), a second
  call at a time with the same label changes nothing, and the two calls together made one
  rename.  (When the reopening fails the label is not stored, and the next call renames
  again.)
\<close>

lemma rotate_001_idempotent_in_bucket:
  "(\<forall>now l s. lastSuffix l = genSuffixStr_001 now l s \<longrightarrow> rotate_001 now l s = (None, l, s))
   \<and> (\<forall>now now' l s f sa newFd sb.
         Duration (param l) \<noteq> 0 \<and> fd l = Some f \<and> fileName l \<noteq> []
         \<and> lastSuffix l \<noteq> [] \<and> lastSuffix l \<noteq> genSuffixStr_001 now l s
         \<and> os_Rename (fileName l) (fileName l @ ''.'' @ genSuffixStr_001 now l s) s = (None, sa)
         \<and> os_OpenFile (fileName l) O_APPEND_CREATE sa = (Inr newFd, sb)
         \<and> genSuffixStr_001 now' l s = genSuffixStr_001 now l s
         \<longrightarrow> (\<exists>l1 s1. rotate_001 now l s = (None, l1, s1)
                \<and> rotate_001 now' l1 s1 = (None, l1, s1)
                \<and> filter isRename (newTrace s s1)
                    = [SysRename (fileName l) (fileName l @ ''.'' @ genSuffixStr_001 now l s)]))"
proof (intro conjI allI impI)
  fix now l s
  assume "lastSuffix l = genSuffixStr_001 now l s"
  then show "rotate_001 now l s = (None, l, s)" by (rule rotate_001_same_label)
next
  fix now now' l s f sa newFd sb
  assume h: "Duration (param l) \<noteq> 0 \<and> fd l = Some f \<and> fileName l \<noteq> []
         \<and> lastSuffix l \<noteq> [] \<and> lastSuffix l \<noteq> genSuffixStr_001 now l s
         \<and> os_Rename (fileName l) (fileName l @ ''.'' @ genSuffixStr_001 now l s) s = (None, sa)
         \<and> os_OpenFile (fileName l) O_APPEND_CREATE sa = (Inr newFd, sb)
         \<and> genSuffixStr_001 now' l s = genSuffixStr_001 now l s"
  then obtain l1 s1 where r: "rotate_001 now l s = (None, l1, s1)"
    and ls: "lastSuffix l1 = genSuffixStr_001 now l s"
    and sf: "suffixFormat l1 = suffixFormat l" and z: "zone s1 = zone s"
    and tr: "trace s1 = trace s @ [SysRename (fileName l) (fileName l @ ''.'' @ genSuffixStr_001 now l s),
                                    SysOpenFile (fileName l) O_APPEND_CREATE, SysClose f]"
    using rotate_001_full [of l f now s sa newFd sb] by blast
  have "genSuffixStr_001 now' l1 s1 = genSuffixStr_001 now' l s"
    using sf z by (rule genSuffixStr_001_cong)
  with h ls have "lastSuffix l1 = genSuffixStr_001 now' l1 s1" by simp
  then have second: "rotate_001 now' l1 s1 = (None, l1, s1)" by (rule rotate_001_same_label)
  have "filter isRename (newTrace s s1)
          = [SysRename (fileName l) (fileName l @ ''.'' @ genSuffixStr_001 now l s)]"
    by (simp add: tr isRename_def newTrace_def)
  with r second
  show "\<exists>l1 s1. rotate_001 now l s = (None, l1, s1)
                \<and> rotate_001 now' l1 s1 = (None, l1, s1)
                \<and> filter isRename (newTrace s s1)
                    = [SysRename (fileName l) (fileName l @ ''.'' @ genSuffixStr_001 now l s)]"
    by blast
qed

lemma rotate_001_idempotent_in_bucket_example:
  "rotate_001 exNow (exLogger_001 ''20240101120000'') (exWorld [(''app.log'', Plain ''x'')] (\<lambda>c. False))
     = (None, exLogger_001 ''20240101120000'', exWorld [(''app.log'', Plain ''x'')] (\<lambda>c. False))
   \<and> (\<exists>l1 s1. rotate_001 exNow (exLogger_001 ''20240101115959'')
                   (exWorld [(''app.log'', Plain ''x'')] (\<lambda>c. False)) = (None, l1, s1)
          \<and> rotate_001 (exNow + 500000000) l1 s1 = (None, l1, s1)
          \<and> filter isRename (newTrace (exWorld [(''app.log'', Plain ''x'')] (\<lambda>c. False)) s1)
               = [SysRename ''app.log'' ''app.log.20240101120000''])"
proof -
  let ?s = "exWorld [(''app.log'', Plain ''x'')] (\<lambda>c. False)"
  let ?l = "exLogger_001 ''20240101115959''"
  let ?tgt = "fileName ?l @ ''.'' @ genSuffixStr_001 exNow ?l ?s"
  let ?sa = "snd (os_Rename (fileName ?l) ?tgt ?s)"
  let ?sb = "snd (os_OpenFile (fileName ?l) O_APPEND_CREATE ?sa)"
  note thm1 = rotate_001_idempotent_in_bucket [THEN conjunct1, rule_format]
  note thm2 = rotate_001_idempotent_in_bucket [THEN conjunct2, rule_format]
  have g0: "lastSuffix (exLogger_001 ''20240101120000'')
      = genSuffixStr_001 exNow (exLogger_001 ''20240101120000'') ?s"
    by code_simp
  have first: "rotate_001 exNow (exLogger_001 ''20240101120000'') ?s
      = (None, exLogger_001 ''20240101120000'', ?s)"
    using g0 by (rule thm1)
  have h1: "Duration (param ?l) \<noteq> 0" by code_simp
  have h2: "fd ?l = Some exFile" by (simp add: exLogger_001_def)
  have h3: "fileName ?l \<noteq> []" by code_simp
  have h4: "lastSuffix ?l \<noteq> []" by code_simp
  have h5: "lastSuffix ?l \<noteq> genSuffixStr_001 exNow ?l ?s" by code_simp
  have "fst (os_Rename (fileName ?l) ?tgt ?s) = None" by code_simp
  then have h6: "os_Rename (fileName ?l) ?tgt ?s = (None, ?sa)" by (rule fst_NoneD)
  have "fst (os_OpenFile (fileName ?l) O_APPEND_CREATE ?sa) = Inr \<lparr>Name = ''app.log'', fdnum = 4\<rparr>"
    by code_simp
  then have h7: "os_OpenFile (fileName ?l) O_APPEND_CREATE ?sa = (Inr \<lparr>Name = ''app.log'', fdnum = 4\<rparr>, ?sb)"
    by (rule fst_eqD)
  have h8: "genSuffixStr_001 (exNow + 500000000) ?l ?s = genSuffixStr_001 exNow ?l ?s" by code_simp
  have tg: "?tgt = ''app.log.20240101120000''" and fn: "fileName ?l = ''app.log''" by code_simp+
  from h1 h2 h3 h4 h5 h6 h7 h8
  have "\<exists>l1 s1. rotate_001 exNow ?l ?s = (None, l1, s1)
          \<and> rotate_001 (exNow + 500000000) l1 s1 = (None, l1, s1)
          \<and> filter isRename (newTrace ?s s1) = [SysRename (fileName ?l) ?tgt]"
    by (intro thm2 conjI)
  then have "\<exists>l1 s1. rotate_001 exNow ?l ?s = (None, l1, s1)
          \<and> rotate_001 (exNow + 500000000) l1 s1 = (None, l1, s1)
          \<and> filter isRename (newTrace ?s s1) = [SysRename (fileName ?l) ''app.log.20240101120000'']"
    unfolding tg .
  then have second: "\<exists>l1 s1. rotate_001 exNow ?l ?s = (None, l1, s1)
          \<and> rotate_001 (exNow + 500000000) l1 s1 = (None, l1, s1)
          \<and> filter isRename (newTrace ?s s1) = [SysRename ''app.log'' ''app.log.20240101120000'']"
    unfolding fn .
  from first second show ?thesis by (rule conjI)
qed

subsection \<open>C2: the reopening fails after the rename (\<^verbatim>\<open>rotate\<close> of \<^verbatim>\<open>part_001\<close>, \<^verbatim>\<open>Rotate\<close> of \<^verbatim>\<open>log.go\<close>)\<close>

text \<open>
  C2 fails on \<^verbatim>\<open>rotate\<close> of \<^verbatim>\<open>part_001\<close>.  The stored label is that of 11:59:59 and the
  clock reads 12:00:00; the rename to \<^verbatim>\<open>app.log.20240101120000\<close> succeeds, the system
  refuses the reopening of \<^verbatim>\<open>app.log\<close>, and the rename back succeeds.  The failure of the
  opening is logged, but \<^verbatim>\<open>rotate\<close> returns nil: what it returns is the result of the
  rename back.
\<close>

theorem rotate_001_reopen_failure_returns_nil:
  "(case rotate_001 exNow (exLogger_001 ''20240101115959'')
           (exWorld [(''app.log'', Plain ''x'')] (\<lambda>c. c = SysOpenFile ''app.log'' O_APPEND_CREATE)) of
      (e, l', s') \<Rightarrow>
        e = None
        \<and> trace s' = [SysRename ''app.log'' ''app.log.20240101120000'',
                       SysOpenFile ''app.log'' O_APPEND_CREATE,
                       SysRename ''app.log.20240101120000'' ''app.log'']
        \<and> diag s' = [(LevelError, ''Failed to open file. file:%s, err:%s'', [''app.log'', ''open app.log''])]
        \<and> files s' = [(''app.log'', Plain ''x'')])"
  by code_simp

text \<open>
  In general: when \<^verbatim>\<open>rotate\<close> of \<^verbatim>\<open>part_001\<close> has renamed the active file and the reopening
  fails, its result is the result of the rename back, whatever the opening returned.
\<close>

lemma rotate_001_reopen_failure:
  assumes g: "Duration (param l) \<noteq> 0" "fd l = Some f" "fileName l \<noteq> []"
    and ls: "lastSuffix l \<noteq> []" "lastSuffix l \<noteq> genSuffixStr_001 now l s"
    and rn: "os_Rename (fileName l) (fileName l @ ''.'' @ genSuffixStr_001 now l s) s = (None, sa)"
    and opn: "os_OpenFile (fileName l) O_APPEND_CREATE sa = (Inl e, sb)"
  shows "fst (rotate_001 now l s)
           = fst (os_Rename (fileName l @ ''.'' @ genSuffixStr_001 now l s) (fileName l)
                    (Logger_Error ''Failed to open file. file:%s, err:%s'' [fileName l, errText e] l sb))"
  using g ls rn opn by (simp add: rotate_001_def Let_def split: prod.splits)

text \<open>
  \<^verbatim>\<open>Rotate\<close> of \<^verbatim>\<open>log.go\<close> does what the claim says.  When it has renamed the active file
  and the reopening of the active path fails, it logs the failure, renames the archive
  back as its last system call, and returns the error of the opening, a \<^verbatim>\<open>PathError\<close>,
  whatever the renaming back did.  The writer stays the old one.
\<close>

lemma Rotate_reopen_failure:
  assumes cfg: "rotateCfg l = Some cfg" and wfile: "w l = FileWriter f"
    and rename_ok: "os_Rename (Name f) (targetLogName now l s) s = (None, s1)"
    and open_fails: "os_OpenFile (Name f) O_APPEND_CREATE s1 = (Inl e, s2)"
  shows "\<exists>l' s'. Logger_Rotate now l s = Some (Some e, l', s')
           \<and> e = PathError ''open'' (Name f)
           \<and> trace s' = trace s @ [SysRename (Name f) (targetLogName now l s),
                                    SysOpenFile (Name f) O_APPEND_CREATE,
                                    SysRename (targetLogName now l s) (Name f)]
           \<and> w l' = w l \<and> out l' = out l"
proof -
  have e: "e = PathError ''open'' (Name f)"
    using open_fails os_OpenFile_Inl [of "Name f" O_APPEND_CREATE s1 e] by simp
  have t1: "trace s1 = trace s @ [SysRename (Name f) (targetLogName now l s)]"
    using rename_ok os_Rename_fields(1) [of "Name f" "targetLogName now l s" s] by simp
  have t2: "trace s2 = trace s1 @ [SysOpenFile (Name f) O_APPEND_CREATE]"
    using open_fails os_OpenFile_fields(1) [of "Name f" O_APPEND_CREATE s1] by simp
  have tgt: "targetLogName now l s = Name f @ ''.'' @ Format (zone s) (Truncate now (sint (Duration cfg)))
                             (if sint (Duration cfg) < sint Minute then formatSec else formatMin)"
    by (simp add: targetLogName_def cfg wfile)
  show ?thesis
  proof (cases "sint (Duration cfg) < sint Minute")
    case True
    with tgt rename_ok open_fails show ?thesis
      by (simp add: Logger_Rotate_def cfg wfile Let_def e t1 t2)
  next
    case False
    with tgt rename_ok open_fails show ?thesis
      by (simp add: Logger_Rotate_def cfg wfile Let_def e t1 t2)
  qed
qed

lemma Rotate_reopen_failure_example:
  "(\<exists>l' s'. Logger_Rotate exNow (exLogger \<lparr>Rotate = 2, Duration = Hour, Compress = False\<rparr>)
        (exWorld [(''app.log'', Plain ''x'')] (\<lambda>c. c = SysOpenFile ''app.log'' O_APPEND_CREATE))
      = Some (Some (PathError ''open'' ''app.log''), l', s')
      \<and> trace s' = [SysRename ''app.log'' ''app.log.202401011200'',
                     SysOpenFile ''app.log'' O_APPEND_CREATE,
                     SysRename ''app.log.202401011200'' ''app.log''])"
proof -
  let ?l = "exLogger \<lparr>Rotate = 2, Duration = Hour, Compress = False\<rparr>"
  let ?s = "exWorld [(''app.log'', Plain ''x'')] (\<lambda>c. c = SysOpenFile ''app.log'' O_APPEND_CREATE)"
  let ?s1 = "snd (os_Rename ''app.log'' ''app.log.202401011200'' ?s)"
  let ?s2 = "snd (os_OpenFile ''app.log'' O_APPEND_CREATE ?s1)"
  have cfg: "rotateCfg ?l = Some \<lparr>Rotate = 2, Duration = Hour, Compress = False\<rparr>"
    and wf: "w ?l = FileWriter exFile" and nm: "Name exFile = ''app.log''"
    by (simp_all add: exLogger_def exFile_def)
  have tgt: "targetLogName exNow ?l ?s = ''app.log.202401011200''"
    by code_simp
  have "fst (os_Rename ''app.log'' ''app.log.202401011200'' ?s) = None"
    by code_simp
  then have rn: "os_Rename (Name exFile) (targetLogName exNow ?l ?s) ?s = (None, ?s1)"
    unfolding tgt nm by (rule fst_NoneD)
  have "fst (os_OpenFile ''app.log'' O_APPEND_CREATE ?s1) = Inl (PathError ''open'' ''app.log'')"
    by code_simp
  then have op: "os_OpenFile (Name exFile) O_APPEND_CREATE ?s1 = (Inl (PathError ''open'' ''app.log''), ?s2)"
    unfolding nm by (rule fst_eqD)
  have tr: "trace ?s = []" by (simp add: exWorld_def)
  from Rotate_reopen_failure [OF cfg wf rn op] show ?thesis
    unfolding tgt nm tr by auto
qed

subsection \<open>C5: when \<^verbatim>\<open>compress\<close> removes the original (\<^verbatim>\<open>log.go\<close>, \<^verbatim>\<open>part_001\<close>)\<close>

lemma compress_ok:
  assumes "checkedStepsOk p s"
  shows "fst (compress p l s) = None"
    and "newTrace s (snd (compress p l s)) =
           [SysOpen p, SysOpenFile (p @ ''.gz'') O_TRUNC_CREATE, SysCopy (p @ ''.gz'') p,
            SysClose \<lparr>Name = p, fdnum = nextFd s\<rparr>, SysGzFlush (p @ ''.gz''), SysGzClose (p @ ''.gz''),
            SysClose \<lparr>Name = p @ ''.gz'', fdnum = nextFd s + 1\<rparr>, SysRemove p]"
  using assms
  by (auto simp add: checkedStepsOk_def compress_def os_Open_def os_OpenFile_def io_Copy_def
      os_Remove_def Let_def newTrace_def update_conv' split: option.splits)

lemma compress_fail:
  assumes "\<not> checkedStepsOk p s"
  shows "fst (compress p l s) \<noteq> None"
    and "SysRemove p \<notin> set (newTrace s (snd (compress p l s)))"
    and "map_of (files (snd (compress p l s))) p = map_of (files s) p"
  using assms
  by (auto simp add: checkedStepsOk_def compress_def os_Open_def os_OpenFile_def io_Copy_def
      Let_def newTrace_def update_conv' split: option.splits)

lemma compressBody_001_ok:
  assumes "checkedStepsOk p s"
  shows "fst (compressBody_001 p l s)"
    and "SysRemove p \<in> set (newTrace s (snd (compressBody_001 p l s)))"
  using assms
  by (auto simp add: checkedStepsOk_def compressBody_001_def os_Open_def os_OpenFile_def io_Copy_def
      os_Remove_def Let_def newTrace_def update_conv' split: option.splits)

lemma compressBody_001_fail:
  assumes "\<not> checkedStepsOk p s"
  shows "\<not> fst (compressBody_001 p l s)"
    and "SysRemove p \<notin> set (newTrace s (snd (compressBody_001 p l s)))"
    and "map_of (files (snd (compressBody_001 p l s))) p = map_of (files s) p"
  using assms
  by (auto simp add: checkedStepsOk_def compressBody_001_def os_Open_def os_OpenFile_def io_Copy_def
      Let_def newTrace_def update_conv' split: option.splits)

lemma compress_001_skip:
  "compressing l \<noteq> 0 \<Longrightarrow> compress_001 p l s = (l, s)"
  by (simp add: compress_001_def CompareAndSwapInt32_def)

lemma compress_001_run:
  "compressing l = 0 \<Longrightarrow> snd (compress_001 p l s) = snd (compressBody_001 p (l\<lparr>compressing := 1\<rparr>) s)"
  by (simp add: compress_001_def CompareAndSwapInt32_def Let_def)

text \<open>
  What decides the removal is the three steps whose error the code looks at.
  \<^verbatim>\<open>compress(path)\<close> calls \<^verbatim>\<open>os.Remove(path)\<close> exactly when the opening of the source, the
  creation of the \<^verbatim>\<open>.gz\<close> target and the copy all succeeded, which is also exactly when
  it returns nil; when one of the three fails, the file system has at \<open>path\<close> what it had
  before.  The same holds of \<^verbatim>\<open>compress\<close> of \<^verbatim>\<open>part_001\<close> once it got past its flag.
\<close>

lemma compress_removes_iff_checked_steps:
  "(SysRemove p \<in> set (newTrace s (snd (compress p l s))) \<longleftrightarrow> checkedStepsOk p s)
   \<and> (fst (compress p l s) = None \<longleftrightarrow> checkedStepsOk p s)
   \<and> (\<not> checkedStepsOk p s \<longrightarrow> map_of (files (snd (compress p l s))) p = map_of (files s) p)
   \<and> (SysRemove p \<in> set (newTrace s (snd (compress_001 p l1 s)))
        \<longleftrightarrow> compressing l1 = 0 \<and> checkedStepsOk p s)
   \<and> (\<not> (compressing l1 = 0 \<and> checkedStepsOk p s)
        \<longrightarrow> map_of (files (snd (compress_001 p l1 s))) p = map_of (files s) p)"
proof (intro conjI)
  show "SysRemove p \<in> set (newTrace s (snd (compress p l s))) \<longleftrightarrow> checkedStepsOk p s"
    using compress_ok(2) [of p s l] compress_fail(2) [of p s l] by (cases "checkedStepsOk p s") simp_all
  show "fst (compress p l s) = None \<longleftrightarrow> checkedStepsOk p s"
    using compress_ok(1) [of p s l] compress_fail(1) [of p s l] by (cases "checkedStepsOk p s") simp_all
  show "\<not> checkedStepsOk p s \<longrightarrow> map_of (files (snd (compress p l s))) p = map_of (files s) p"
    using compress_fail(3) [of p s l] by simp
  show "SysRemove p \<in> set (newTrace s (snd (compress_001 p l1 s)))
        \<longleftrightarrow> compressing l1 = 0 \<and> checkedStepsOk p s"
  proof (cases "compressing l1 = 0")
    case True
    then show ?thesis
      using compressBody_001_ok(2) [of p s "l1\<lparr>compressing := 1\<rparr>"]
        compressBody_001_fail(2) [of p s "l1\<lparr>compressing := 1\<rparr>"]
      by (cases "checkedStepsOk p s") (simp_all add: compress_001_run)
  next
    case False
    then show ?thesis by (simp add: compress_001_skip)
  qed
  show "\<not> (compressing l1 = 0 \<and> checkedStepsOk p s)
        \<longrightarrow> map_of (files (snd (compress_001 p l1 s))) p = map_of (files s) p"
  proof (cases "compressing l1 = 0")
    case True
    then show ?thesis
      using compressBody_001_fail(3) [of p s "l1\<lparr>compressing := 1\<rparr>"]
      by (simp add: compress_001_run)
  next
    case False
    then show ?thesis by (simp add: compress_001_skip)
  qed
qed

lemma compress_removes_iff_checked_steps_example:
  "map_of (files (snd (compress ''app.log.1''
        (exLogger \<lparr>Rotate = 2, Duration = Hour, Compress = True\<rparr>)
        (exWorld [(''app.log.1'', Plain ''old'')] (\<lambda>c. c = SysCopy ''app.log.1.gz'' ''app.log.1'')))))
      ''app.log.1'' = Some (Plain ''old'')
   \<and> map_of (files (snd (compress_001 ''app.log.1'' (exLogger_001 [])
        (exWorld [(''app.log.1'', Plain ''old'')] (\<lambda>c. c = SysOpenFile ''app.log.1.gz'' O_TRUNC_CREATE)))))
      ''app.log.1'' = Some (Plain ''old'')"
proof -
  let ?s = "exWorld [(''app.log.1'', Plain ''old'')] (\<lambda>c. c = SysCopy ''app.log.1.gz'' ''app.log.1'')"
  let ?s' = "exWorld [(''app.log.1'', Plain ''old'')] (\<lambda>c. c = SysOpenFile ''app.log.1.gz'' O_TRUNC_CREATE)"
  note thm3 = compress_removes_iff_checked_steps [THEN conjunct2, THEN conjunct2, THEN conjunct1, rule_format]
  note thm5 = compress_removes_iff_checked_steps [THEN conjunct2, THEN conjunct2, THEN conjunct2,
      THEN conjunct2, rule_format]
  have a: "\<not> checkedStepsOk ''app.log.1'' ?s" by code_simp
  have b: "\<not> (compressing (exLogger_001 []) = 0 \<and> checkedStepsOk ''app.log.1'' ?s')" by code_simp
  have f: "map_of (files ?s) ''app.log.1'' = Some (Plain ''old'')"
    "map_of (files ?s') ''app.log.1'' = Some (Plain ''old'')"
    by (simp_all add: exWorld_def)
  from thm3 [OF a] thm5 [OF b] f show ?thesis by simp
qed

text \<open>
  C5 fails on both copies of \<^verbatim>\<open>compress\<close>: the write is finished by \<^verbatim>\<open>gzfile.Flush\<close>,
  \<^verbatim>\<open>gzfile.Close\<close> and \<^verbatim>\<open>wf.Close\<close> in the deferred function, whose results are discarded,
  and the removal that follows them looks only at the error of the copy.  Here the system
  refuses the close of the gzip writer.  \<^verbatim>\<open>compress\<close> of \<^verbatim>\<open>log.go\<close> returns nil and removes
  \<^verbatim>\<open>app.log.1\<close>, and what is left at \<^verbatim>\<open>app.log.1.gz\<close> is the unfinished stream; \<^verbatim>\<open>compress\<close>
  of \<^verbatim>\<open>part_001\<close> does the same.
\<close>

theorem compress_removes_after_failed_close:
  "(case compress ''app.log.1'' (exLogger \<lparr>Rotate = 2, Duration = Hour, Compress = True\<rparr>)
           (exWorld [(''app.log.1'', Plain ''old'')] (\<lambda>c. c = SysGzClose ''app.log.1.gz'')) of
      (e, s') \<Rightarrow>
        e = None
        \<and> files s' = [(''app.log.1.gz'', GzPartial (Plain ''old''))]
        \<and> filter isRemove (trace s') = [SysRemove ''app.log.1''])
   \<and> (case compress_001 ''app.log.1'' (exLogger_001 [])
             (exWorld [(''app.log.1'', Plain ''old'')] (\<lambda>c. c = SysGzClose ''app.log.1.gz'')) of
        (l', s') \<Rightarrow>
          files s' = [(''app.log.1.gz'', GzPartial (Plain ''old''))]
          \<and> filter isRemove (trace s') = [SysRemove ''app.log.1''])"
  by code_simp

subsection \<open>C6: compressions in flight (\<^verbatim>\<open>compress\<close> of \<^verbatim>\<open>log.go\<close> and of \<^verbatim>\<open>part_001\<close>)\<close>

lemma singleFlight_step: "singleFlight c \<Longrightarrow> singleFlight (compressStep e c)"
proof -
  obtain l s inflight where c: "c = (l, s, inflight)" by (cases c)
  assume "singleFlight c"
  with c show ?thesis
    by (cases e; cases inflight) (auto simp add: singleFlight_def CompareAndSwapInt32_def)
qed

lemma singleFlight_run: "singleFlight c \<Longrightarrow> singleFlight (compressRun evs c)"
  unfolding compressRun_def
  by (induction evs arbitrary: c) (simp_all add: singleFlight_step)

text \<open>
  \<^verbatim>\<open>compress\<close> of \<^verbatim>\<open>part_001\<close> is the copy with the flag.  A call that finds
  \<^verbatim>\<open>compressing\<close> set returns at once with the logger and the world unchanged: no file is
  read, written or deleted, nothing is logged, no error is returned and nothing is queued.
  And from a logger whose flag is clear, whatever the order in which goroutines enter
  \<^verbatim>\<open>compress\<close> and the job in flight leaves it, at most one job is in flight.  One
  goroutine entering and leaving, with nothing in between, is a call of \<^verbatim>\<open>compress\<close>.
\<close>

lemma compressRun_compress_001:
  "compressRun [Enter p, Leave] (l, s, []) = (fst (compress_001 p l s), snd (compress_001 p l s), [])"
  by (simp add: compressRun_def compress_001_def CompareAndSwapInt32_def Let_def)

lemma compress_001_single_flight:
  "(compressing l \<noteq> 0 \<longrightarrow> compress_001 p l s = (l, s))
   \<and> (compressing l \<noteq> 0 \<longrightarrow> compressStep (Enter p) (l, s, inflight) = (l, s, inflight))
   \<and> (compressing l = 0 \<longrightarrow> length (snd (snd (compressRun evs (l, s, [])))) \<le> 1)"
proof (intro conjI impI)
  assume "compressing l \<noteq> 0"
  then show "compress_001 p l s = (l, s)" by (rule compress_001_skip)
next
  assume "compressing l \<noteq> 0"
  then show "compressStep (Enter p) (l, s, inflight) = (l, s, inflight)"
    by (simp add: CompareAndSwapInt32_def)
next
  assume "compressing l = 0"
  then have "singleFlight (l, s, [])" by (simp add: singleFlight_def)
  then have "singleFlight (compressRun evs (l, s, []))" by (rule singleFlight_run)
  then show "length (snd (snd (compressRun evs (l, s, [])))) \<le> 1"
    by (cases "compressRun evs (l, s, [])") (auto simp add: singleFlight_def)
qed

lemma compress_001_single_flight_example:
  "compress_001 ''app.log.2'' ((exLogger_001 [])\<lparr>compressing := 1\<rparr>)
       (exWorld [(''app.log.2'', Plain ''old'')] (\<lambda>c. False))
     = ((exLogger_001 [])\<lparr>compressing := 1\<rparr>, exWorld [(''app.log.2'', Plain ''old'')] (\<lambda>c. False))
   \<and> length (snd (snd (compressRun [Enter ''app.log.1'', Enter ''app.log.2'', Leave, Enter ''app.log.3'']
        (exLogger_001 [], exWorld [(''app.log.1'', Plain ''old'')] (\<lambda>c. False), [])))) \<le> 1"
proof -
  note thm1 = compress_001_single_flight [THEN conjunct1, rule_format]
  note thm3 = compress_001_single_flight [THEN conjunct2, THEN conjunct2, rule_format]
  have a: "compressing ((exLogger_001 [])\<lparr>compressing := 1\<rparr>) \<noteq> 0" by simp
  have b: "compressing (exLogger_001 []) = 0" by (simp add: exLogger_001_def)
  from thm1 [OF a] thm3 [OF b] show ?thesis by simp
qed

lemma os_Open_trace: "trace (snd (os_Open p s)) = trace s @ [SysOpen p]"
  by (simp add: os_Open_def Let_def)

lemma io_Copy_trace: "trace (snd (io_Copy d p s)) = trace s @ [SysCopy d p]"
  by (simp add: io_Copy_def Let_def split: option.splits)

lemma os_Remove_trace: "trace (snd (os_Remove p s)) = trace s @ [SysRemove p]"
  by (simp add: os_Remove_def Let_def)

text \<open>
  \<^verbatim>\<open>compress\<close> of \<^verbatim>\<open>log.go\<close> has no flag and nothing else to consult: whatever the logger
  and the world, a call starts by opening \<open>path\<close>.
\<close>

lemma compress_never_skips:
  "take 1 (newTrace s (snd (compress p l s))) = [SysOpen p]"
proof -
  obtain r1 s1 where o: "os_Open p s = (r1, s1)" by (cases "os_Open p s")
  have t1: "trace s1 = trace s @ [SysOpen p]"
    using o os_Open_trace [of p s] by simp
  obtain r2 s2 where c: "os_OpenFile (p @ ''.gz'') O_TRUNC_CREATE s1 = (r2, s2)"
    by (cases "os_OpenFile (p @ ''.gz'') O_TRUNC_CREATE s1")
  have t2: "trace s2 = trace s1 @ [SysOpenFile (p @ ''.gz'') O_TRUNC_CREATE]"
    using c os_OpenFile_fields(1) [of "p @ ''.gz''" O_TRUNC_CREATE s1] by simp
  obtain r3 s3 where w: "io_Copy (p @ ''.gz'') p s2 = (r3, s3)"
    by (cases "io_Copy (p @ ''.gz'') p s2")
  have t3: "trace s3 = trace s2 @ [SysCopy (p @ ''.gz'') p]"
    using w io_Copy_trace [of "p @ ''.gz''" p s2] by simp
  have "\<exists>rest. trace (snd (compress p l s)) = trace s @ SysOpen p # rest"
    using o c w
    by (cases r1; cases r2; cases r3)
       (simp_all add: compress_def t1 t2 t3 os_Remove_trace)
  then show ?thesis by (auto simp add: newTrace_def)
qed

text \<open>
  C6 fails on \<^verbatim>\<open>log.go\<close>.  A logger with compression enabled rotates \<^verbatim>\<open>app.log\<close> at 12:00
  and at 13:00: each \<^verbatim>\<open>Rotate\<close> starts a goroutine that will call \<^verbatim>\<open>compress\<close> on its
  archive, and waits for none.  In \<open>mid\<close> the first job has opened its archive, created its
  \<^verbatim>\<open>.gz\<close> file and copied, and has not yet run its deferred closes: it is in flight, its
  stream unfinished.  The second job's \<^verbatim>\<open>compress\<close>, called then, is no skip: it returns nil
  after reading its archive, writing its \<^verbatim>\<open>.gz\<close> file and removing the archive.
\<close>

theorem compress_runs_beside_job_in_flight:
  "(case Logger_Rotate exNow (exLoggerOn ''app.log'' [] \<lparr>Rotate = 5, Duration = Hour, Compress = True\<rparr>)
           (exWorld [(''app.log'', Plain ''one'')] (\<lambda>c. False)) of
      None \<Rightarrow> False
    | Some (e1, l1, s1) \<Rightarrow>
        (case Logger_Rotate (exNow + 3600000000000) l1 s1 of
           None \<Rightarrow> False
         | Some (e2, l2, s2) \<Rightarrow>
             (let mid = snd (io_Copy ''app.log.202401011200.gz'' ''app.log.202401011200''
                          (snd (os_OpenFile ''app.log.202401011200.gz'' O_TRUNC_CREATE
                             (snd (os_Open ''app.log.202401011200'' s2)))))
              in e1 = None \<and> e2 = None
                 \<and> spawned s2 = [GoHousekeeping ''app.log.202401011200'' exNow ''app.log'',
                                  GoHousekeeping ''app.log.202401011300'' (exNow + 3600000000000) ''app.log'']
                 \<and> map_of (files mid) ''app.log.202401011200.gz'' = Some (GzPartial (Plain ''one''))
                 \<and> (case compress ''app.log.202401011300'' l2 mid of
                       (e3, s3) \<Rightarrow>
                         e3 = None
                         \<and> newTrace mid s3
                             = [SysOpen ''app.log.202401011300'',
                                SysOpenFile ''app.log.202401011300.gz'' O_TRUNC_CREATE,
                                SysCopy ''app.log.202401011300.gz'' ''app.log.202401011300'',
                                SysClose \<lparr>Name = ''app.log.202401011300'', fdnum = 8\<rparr>,
                                SysGzFlush ''app.log.202401011300.gz'',
                                SysGzClose ''app.log.202401011300.gz'',
                                SysClose \<lparr>Name = ''app.log.202401011300.gz'', fdnum = 9\<rparr>,
                                SysRemove ''app.log.202401011300'']
                         \<and> map_of (files s3) ''app.log.202401011300'' = None))))"
  by code_simp

subsection \<open>C7: the suffix format chosen (\<^verbatim>\<open>SetLogParam\<close> of \<^verbatim>\<open>part_001\<close>, \<^verbatim>\<open>Rotate\<close> of \<^verbatim>\<open>log.go\<close>)\<close>

lemma SetLogParam_001_format:
  "suffixFormat (fst (SetLogParam_001 now p l s)) =
     (if Duration p = 24 * Hour then formatDay
      else if Duration p = Hour then formatHour
      else if Duration p = Minute then formatMin
      else if Duration p = Second then formatSec
      else suffixFormat l)"
  by (simp add: SetLogParam_001_def Let_def)

lemma Rotate_format:
  assumes cfg: "rotateCfg l = Some cfg"
  shows "\<exists>e l' s'. Logger_Rotate now l s = Some (e, l', s')
           \<and> suffixFormat l' = (if sint (Duration cfg) < 60000000000 then formatSec else formatMin)"
proof -
  have m: "sint Minute = 60000000000" by (simp add: Minute_def Second_def)
  show ?thesis
  proof (cases "w l")
    case OtherWriter
    with cfg m show ?thesis by (simp add: Logger_Rotate_def Let_def)
  next
    case (FileWriter f)
    with cfg m show ?thesis
      by (auto simp add: Logger_Rotate_def Let_def SetOutput_def split: prod.splits option.splits sum.splits)
  qed
qed

text \<open>
  C7, as amended.  \<^verbatim>\<open>SetLogParam\<close> of \<^verbatim>\<open>part_001\<close> chooses the day, hour, minute or second
  format when the duration is exactly 24 hours, one hour, one minute or one second, and for
  every other duration leaves the suffix format as it was: there is no fallback.
  \<^verbatim>\<open>Rotate\<close> of \<^verbatim>\<open>log.go\<close> looks for no exact match: every call returns, having set the
  second format when the duration is under one minute (60000000000 ns) and the minute
  format otherwise.
\<close>

theorem suffix_format_rules:
  "suffixFormat (fst (SetLogParam_001 now p l1 s1)) =
     (if Duration p = 24 * Hour then formatDay
      else if Duration p = Hour then formatHour
      else if Duration p = Minute then formatMin
      else if Duration p = Second then formatSec
      else suffixFormat l1)
   \<and> (\<forall>cfg. rotateCfg l = Some cfg \<longrightarrow>
         (\<exists>e l' s'. Logger_Rotate now l s = Some (e, l', s')
            \<and> suffixFormat l' = (if sint (Duration cfg) < 60000000000 then formatSec else formatMin)))"
  using SetLogParam_001_format [of now p l1 s1] Rotate_format [of l _ now s] by blast

theorem suffix_format_rules_witness:
  "suffixFormat (fst (SetLogParam_001 exNow \<lparr>Rotate = 5, Duration = Hour, Compress = False\<rparr>
      (New_001 OtherWriter LevelDebug) (exWorld [] (\<lambda>c. False)))) = formatHour
   \<and> (\<exists>e l' s'. Logger_Rotate exNow (exLogger \<lparr>Rotate = 5, Duration = 30 * Second, Compress = False\<rparr>)
          (exWorld [(''app.log'', Plain ''x'')] (\<lambda>c. False)) = Some (e, l', s')
        \<and> suffixFormat l' = formatSec)"
proof -
  let ?p = "\<lparr>Rotate = 5, Duration = Hour, Compress = False\<rparr>"
  let ?cfg = "\<lparr>Rotate = 5, Duration = 30 * Second, Compress = False\<rparr>"
  note thm1 = suffix_format_rules [THEN conjunct1]
  note thm2 = suffix_format_rules [THEN conjunct2, rule_format]
  have d: "Duration ?p \<noteq> 24 * Hour" "Duration ?p = Hour"
    by (simp_all add: Hour_def Minute_def Second_def)
  have a: "suffixFormat (fst (SetLogParam_001 exNow ?p (New_001 OtherWriter LevelDebug)
              (exWorld [] (\<lambda>c. False)))) = formatHour"
    using thm1 [of exNow ?p "New_001 OtherWriter LevelDebug" "exWorld [] (\<lambda>c. False)"] d by simp
  have cfg: "rotateCfg (exLogger ?cfg) = Some ?cfg" by (simp add: exLogger_def)
  have lt: "sint (Duration ?cfg) < 60000000000" by (simp add: Second_def)
  from thm2 [OF cfg, of exNow "exWorld [(''app.log'', Plain ''x'')] (\<lambda>c. False)"] lt
  have b: "\<exists>e l' s'. Logger_Rotate exNow (exLogger ?cfg)
          (exWorld [(''app.log'', Plain ''x'')] (\<lambda>c. False)) = Some (e, l', s')
        \<and> suffixFormat l' = formatSec"
    by simp
  from a b show ?thesis by (rule conjI)
qed

text \<open>
  C7 as stated fails on both.  On the logger that \<^verbatim>\<open>New\<close> of \<^verbatim>\<open>part_001\<close> returns, a
  duration of 90 seconds, which no granularity matches, leaves the suffix format empty:
  the second-level format is not chosen.  And \<^verbatim>\<open>Rotate\<close> of \<^verbatim>\<open>log.go\<close> with a duration of
  exactly one hour sets the minute format, not the hour format, which is the coarsest
  exact match.
\<close>

theorem suffix_format_not_as_stated:
  "suffixFormat (fst (SetLogParam_001 exNow \<lparr>Rotate = 5, Duration = 90 * Second, Compress = False\<rparr>
      (New_001 OtherWriter LevelDebug) (exWorld [] (\<lambda>c. False)))) = []
   \<and> formatSec \<noteq> []
   \<and> (case Logger_Rotate exNow (exLoggerOn ''app.log'' [] \<lparr>Rotate = 5, Duration = Hour, Compress = False\<rparr>)
             (exWorld [(''app.log'', Plain ''x'')] (\<lambda>c. False)) of
        None \<Rightarrow> False
      | Some (e, l', s') \<Rightarrow> suffixFormat l' = formatMin \<and> formatMin \<noteq> formatHour)"
  by code_simp

subsection \<open>C8: an invalid configuration (\<^verbatim>\<open>StartRotate\<close> of \<^verbatim>\<open>log.go\<close>, \<^verbatim>\<open>New\<close> and \<^verbatim>\<open>startRotateRoutine\<close> of \<^verbatim>\<open>part_000\<close>)\<close>

lemma sint_Second: "sint Second = 1000000000"
  by (simp add: Second_def)

lemma StartRotate_validates:
  "(rotateCfg l = None \<or> (\<exists>cfg. rotateCfg l = Some cfg \<and> (sint (Rotate cfg) \<le> 0 \<or> sint (Duration cfg) < 1000000000))
      \<longrightarrow> StartRotate l s = (Some errInvalidRotateConfig, l, s))
   \<and> (\<forall>cfg. rotateCfg l = Some cfg \<and> 0 < sint (Rotate cfg) \<and> 1000000000 \<le> sint (Duration cfg)
        \<longrightarrow> (\<exists>l' s'. StartRotate l s = (None, l', s') \<and> rotateCfg l' = Some cfg
               \<and> Level l' = Level l \<and> w l' = w l
               \<and> spawned s' = spawned s @ [GoRotateLoop]))"
  by (auto simp add: StartRotate_def sint_Second closeChannel_def Let_def split: option.splits)

lemma New_000_invalid:
  assumes "rc = None \<or> (\<exists>c. rc = Some c \<and> (sint (Rotate c) \<le> 0 \<or> sint (Duration c) < 1000000000))"
  shows "\<exists>l0 s0. New_000 x level rc s = (l0, s0)
           \<and> startRotateRoutine_000 l0 = RoutineReturned
           \<and> Level l0 = level \<and> w l0 = x
           \<and> trace s0 = trace s \<and> diag s0 = diag s \<and> files s0 = files s
           \<and> spawned s0 = spawned s @ (if \<exists>c. rc = Some c \<and> StartRoutine c then [GoStartRotateRoutine] else [])"
  using assms
  by (auto simp add: New_000_def startRotateRoutine_000_def sint_Second Let_def split: option.splits)

text \<open>
  C8, as amended.  With no configuration, with a count \<^verbatim>\<open>Rotate\<close> of zero or less, or with
  a duration under one second (1000000000 ns), no rotation loop runs, and a valid
  configuration is used as given.  \<^verbatim>\<open>StartRotate\<close> of \<^verbatim>\<open>log.go\<close> says so at once: it
  returns \<^verbatim>\<open>errInvalidRotateConfig\<close> and changes nothing, no channel made and no goroutine
  started; with a valid configuration it returns nil and starts the loop.  In \<^verbatim>\<open>part_000\<close>
  nothing is reported: \<^verbatim>\<open>New\<close> returns the logger as it does for a valid configuration,
  having started the goroutine when \<^verbatim>\<open>StartRoutine\<close> is set, nothing is logged, and
  \<^verbatim>\<open>startRotateRoutine\<close> returns at its first line, before its loop.
\<close>

theorem invalid_config_starts_no_loop:
  "(rotateCfg l = None \<or> (\<exists>cfg. rotateCfg l = Some cfg \<and> (sint (Rotate cfg) \<le> 0 \<or> sint (Duration cfg) < 1000000000))
      \<longrightarrow> StartRotate l s = (Some errInvalidRotateConfig, l, s))
   \<and> (\<forall>cfg. rotateCfg l = Some cfg \<and> 0 < sint (Rotate cfg) \<and> 1000000000 \<le> sint (Duration cfg)
        \<longrightarrow> (\<exists>l' s'. StartRotate l s = (None, l', s') \<and> rotateCfg l' = Some cfg
               \<and> Level l' = Level l \<and> w l' = w l
               \<and> spawned s' = spawned s @ [GoRotateLoop]))
   \<and> (rc = None \<or> (\<exists>c. rc = Some c \<and> (sint (Rotate c) \<le> 0 \<or> sint (Duration c) < 1000000000))
        \<longrightarrow> (\<exists>l0 s0. New_000 x level rc s = (l0, s0)
               \<and> startRotateRoutine_000 l0 = RoutineReturned
               \<and> Level l0 = level \<and> w l0 = x
               \<and> trace s0 = trace s \<and> diag s0 = diag s \<and> files s0 = files s
               \<and> spawned s0 = spawned s
                    @ (if \<exists>c. rc = Some c \<and> StartRoutine c then [GoStartRotateRoutine] else [])))"
proof (intro conjI impI)
  assume "rotateCfg l = None \<or> (\<exists>cfg. rotateCfg l = Some cfg \<and> (sint (Rotate cfg) \<le> 0 \<or> sint (Duration cfg) < 1000000000))"
  then show "StartRotate l s = (Some errInvalidRotateConfig, l, s)"
    using StartRotate_validates [of l s] by blast
next
  show "\<forall>cfg. rotateCfg l = Some cfg \<and> 0 < sint (Rotate cfg) \<and> 1000000000 \<le> sint (Duration cfg)
        \<longrightarrow> (\<exists>l' s'. StartRotate l s = (None, l', s') \<and> rotateCfg l' = Some cfg
               \<and> Level l' = Level l \<and> w l' = w l
               \<and> spawned s' = spawned s @ [GoRotateLoop])"
    using StartRotate_validates [of l s] by (rule conjunct2)
next
  assume "rc = None \<or> (\<exists>c. rc = Some c \<and> (sint (Rotate c) \<le> 0 \<or> sint (Duration c) < 1000000000))"
  then show "\<exists>l0 s0. New_000 x level rc s = (l0, s0)
               \<and> startRotateRoutine_000 l0 = RoutineReturned
               \<and> Level l0 = level \<and> w l0 = x
               \<and> trace s0 = trace s \<and> diag s0 = diag s \<and> files s0 = files s
               \<and> spawned s0 = spawned s
                    @ (if \<exists>c. rc = Some c \<and> StartRoutine c then [GoStartRotateRoutine] else [])"
    by (rule New_000_invalid)
qed

theorem invalid_config_starts_no_loop_witness:
  "StartRotate (exLogger \<lparr>Rotate = 0, Duration = Hour, Compress = False\<rparr>) (exWorld [] (\<lambda>c. False))
     = (Some errInvalidRotateConfig, exLogger \<lparr>Rotate = 0, Duration = Hour, Compress = False\<rparr>,
        exWorld [] (\<lambda>c. False))
   \<and> (\<exists>l' s'. StartRotate (exLogger \<lparr>Rotate = 2, Duration = Hour, Compress = False\<rparr>)
          (exWorld [] (\<lambda>c. False)) = (None, l', s')
        \<and> rotateCfg l' = Some \<lparr>Rotate = 2, Duration = Hour, Compress = False\<rparr>
        \<and> spawned s' = [GoRotateLoop])
   \<and> (\<exists>l0 s0. New_000 OtherWriter LevelInfo
          (Some \<lparr>Rotate = 0, Duration = Hour, Compress = False, StartRoutine = True\<rparr>)
          (exWorld [] (\<lambda>c. False)) = (l0, s0)
        \<and> startRotateRoutine_000 l0 = RoutineReturned
        \<and> diag s0 = [] \<and> spawned s0 = [GoStartRotateRoutine])"
proof -
  note thm1 = invalid_config_starts_no_loop [THEN conjunct1, rule_format]
  note thm2 = invalid_config_starts_no_loop [THEN conjunct2, THEN conjunct1, rule_format]
  note thm3 = invalid_config_starts_no_loop [THEN conjunct2, THEN conjunct2, rule_format]
  let ?bad = "\<lparr>Rotate = 0, Duration = Hour, Compress = False\<rparr>"
  let ?good = "\<lparr>Rotate = 2, Duration = Hour, Compress = False\<rparr>"
  let ?rc = "Some \<lparr>Rotate = 0, Duration = Hour, Compress = False, StartRoutine = True\<rparr>"
  have a: "rotateCfg (exLogger ?bad) = None
      \<or> (\<exists>cfg. rotateCfg (exLogger ?bad) = Some cfg \<and> (sint (Rotate cfg) \<le> 0 \<or> sint (Duration cfg) < 1000000000))"
    by (simp add: exLogger_def)
  have b: "rotateCfg (exLogger ?good) = Some ?good \<and> 0 < sint (Rotate ?good) \<and> 1000000000 \<le> sint (Duration ?good)"
    by (simp add: exLogger_def Hour_def Minute_def Second_def)
  have c: "?rc = None \<or> (\<exists>c. ?rc = Some c \<and> (sint (Rotate c) \<le> 0 \<or> sint (Duration c) < 1000000000))"
    by simp
  have sp: "spawned (exWorld [] (\<lambda>c. False)) = []" "diag (exWorld [] (\<lambda>c. False)) = []"
    by (simp_all add: exWorld_def)
  have p1: "StartRotate (exLogger ?bad) (exWorld [] (\<lambda>c. False))
     = (Some errInvalidRotateConfig, exLogger ?bad, exWorld [] (\<lambda>c. False))"
    using a by (rule thm1)
  have p2: "\<exists>l' s'. StartRotate (exLogger ?good) (exWorld [] (\<lambda>c. False)) = (None, l', s')
        \<and> rotateCfg l' = Some ?good \<and> spawned s' = [GoRotateLoop]"
    using thm2 [OF b, of "exWorld [] (\<lambda>c. False)"] sp by auto
  have p3: "\<exists>l0 s0. New_000 OtherWriter LevelInfo ?rc (exWorld [] (\<lambda>c. False)) = (l0, s0)
        \<and> startRotateRoutine_000 l0 = RoutineReturned
        \<and> diag s0 = [] \<and> spawned s0 = [GoStartRotateRoutine]"
    using thm3 [OF c, of OtherWriter LevelInfo "exWorld [] (\<lambda>c. False)"] sp by auto
  from p1 p2 p3 show ?thesis by (intro conjI)
qed

text \<open>
  C8 as stated fails on \<^verbatim>\<open>part_000\<close>: with a count of zero and \<^verbatim>\<open>StartRoutine\<close> set, \<^verbatim>\<open>New\<close>
  returns the logger, holding the configuration it was given, and starts the goroutine;
  nothing is logged, and no error exists for the caller to see, since \<^verbatim>\<open>New\<close> returns
  nothing but the logger and the goroutine's function has no result.  That the loop is not
  running is all: \<^verbatim>\<open>startRotateRoutine\<close> has returned.
\<close>

theorem New_000_reports_no_error:
  "(case New_000 OtherWriter LevelInfo
           (Some \<lparr>Rotate = 0, Duration = Hour, Compress = False, StartRoutine = True\<rparr>)
           (exWorld [] (\<lambda>c. False)) of
      (l, s) \<Rightarrow>
        rotateCfg l = Some \<lparr>Rotate = 0, Duration = Hour, Compress = False\<rparr>
        \<and> spawned s = [GoStartRotateRoutine] \<and> diag s = [] \<and> written s = []
        \<and> startRotateRoutine_000 l = RoutineReturned)"
  by code_simp

subsection \<open>The retention sweep\<close>

text \<open>
  \<open>FindString\<close> is the leftmost match: empty when the pattern matches at no place, and the
  match at the first place where there is one.
\<close>

lemma FindString_none:
  "(\<forall>j \<le> length fn. matchPrefix rx (drop j fn) = None) \<Longrightarrow> FindString rx fn = []"
proof (induction fn)
  case Nil
  then show ?case by simp
next
  case (Cons c cs)
  have here: "matchPrefix rx (c # cs) = None" using Cons.prems [rule_format, of 0] by simp
  have "\<forall>j \<le> length cs. matchPrefix rx (drop j cs) = None"
  proof (intro allI impI)
    fix j assume "j \<le> length cs"
    then show "matchPrefix rx (drop j cs) = None"
      using Cons.prems [rule_format, of "Suc j"] by simp
  qed
  with Cons.IH here show ?case by simp
qed

lemma FindString_leftmost:
  "i \<le> length fn \<Longrightarrow> matchPrefix rx (drop i fn) = Some m
     \<Longrightarrow> (\<forall>j < i. matchPrefix rx (drop j fn) = None) \<Longrightarrow> FindString rx fn = m"
proof (induction fn arbitrary: i)
  case Nil
  then show ?case by simp
next
  case (Cons c cs)
  show ?case
  proof (cases i)
    case 0
    with Cons.prems show ?thesis by simp
  next
    case (Suc k)
    have here: "matchPrefix rx (c # cs) = None"
      using Cons.prems(3) [rule_format, of 0] Suc by simp
    have "\<forall>j < k. matchPrefix rx (drop j cs) = None"
    proof (intro allI impI)
      fix j assume "j < k"
      then show "matchPrefix rx (drop j cs) = None"
        using Cons.prems(3) [rule_format, of "Suc j"] Suc by simp
    qed
    with Cons.IH [of k] Cons.prems Suc have "FindString rx cs = m" by simp
    with here show ?thesis by simp
  qed
qed

lemma cleanLoop_sweepGen:
  "cleanLoop rx now paths l s = sweepGen (\<lambda>fn. FindString rx fn \<noteq> []) (FindString rx) (\<lambda>fn. fn) now paths l s"
  by (induction paths arbitrary: s) (simp_all add: Let_def split: option.splits prod.splits)


lemma os_Remove_fields [simp]:
  "trace (snd (os_Remove p s)) = trace s @ [SysRemove p]"
  "faults (snd (os_Remove p s)) = faults s"
  "zone (snd (os_Remove p s)) = zone s"
  "diag (snd (os_Remove p s)) = diag s"
  by (simp_all add: os_Remove_def Let_def)

lemma os_Remove_files:
  "map_of (files (snd (os_Remove p s))) q =
     (if q = p \<and> \<not> faults s (SysRemove p) then None else map_of (files s) q)"
  by (auto simp add: os_Remove_def Let_def delete_conv')

lemma Logger_Error_diag [simp]:
  "diag (Logger_Error fmt v l s) = diag s @ [(LevelError, fmt, v)]"
  by (simp add: Logger_Error_def Logger_log_def Let_def)

lemma isOverdue_cfg:
  assumes "rotateCfg l = Some cfg"
  shows "isOverdue now ts l s =
     Some (dueLabel now l (zone s) ts,
           if ParseInLocation (zone s) (suffixFormat l) ts = None
           then Logger_Error ''parse time err. time-str:%s, err:%s'' [ts, ''parsing time''] l s else s)"
  using assms by (simp add: isOverdue_def dueLabel_def split: option.splits)

lemma sweepGen_result:
  assumes cfg: "rotateCfg l = Some cfg"
  shows "\<exists>s'. sweepGen cand lab tgt now fns l s = Some s'
           \<and> faults s' = faults s \<and> zone s' = zone s
           \<and> trace s' = trace s @ map (\<lambda>fn. SysRemove (tgt fn)) (sweepRemoved cand lab now l (zone s) fns)
           \<and> diag s' = diag s @ map (\<lambda>fn. parseErrRecord (lab fn)) (sweepUnparsed cand lab l (zone s) fns)
           \<and> (\<forall>q. map_of (files s') q =
                 (if q \<in> tgt ` set (sweepRemoved cand lab now l (zone s) fns) \<and> \<not> faults s (SysRemove q)
                  then None else map_of (files s) q))"
proof (induction fns arbitrary: s)
  case Nil
  show ?case by (simp add: sweepRemoved_def sweepUnparsed_def)
next
  case (Cons fn fns)
  show ?case
  proof (cases "cand fn")
    case False
    with Cons.IH [of s] show ?thesis
      by (simp add: sweepRemoved_def sweepUnparsed_def)
  next
    case True
    let ?s1 = "if ParseInLocation (zone s) (suffixFormat l) (lab fn) = None
           then Logger_Error ''parse time err. time-str:%s, err:%s'' [lab fn, ''parsing time''] l s else s"
    have io: "isOverdue now (lab fn) l s = Some (dueLabel now l (zone s) (lab fn), ?s1)"
      using cfg by (rule isOverdue_cfg)
    have s1: "faults ?s1 = faults s" "zone ?s1 = zone s" "trace ?s1 = trace s" "files ?s1 = files s"
      by simp_all
    show ?thesis
    proof (cases "dueLabel now l (zone s) (lab fn)")
      case due: True
      then have parsed: "ParseInLocation (zone s) (suffixFormat l) (lab fn) \<noteq> None"
        by (auto simp add: dueLabel_def split: option.splits)
      from Cons.IH [of "snd (os_Remove (tgt fn) s)"] True due parsed io
      show ?thesis
        by (auto simp add: sweepRemoved_def sweepUnparsed_def os_Remove_files)
    next
      case notdue: False
      from Cons.IH [of ?s1] True notdue io s1
      show ?thesis
        by (auto simp add: sweepRemoved_def sweepUnparsed_def parseErrRecord_def)
    qed
  qed
qed


lemma isRemove_simps [simp]:
  "isRemove (SysRemove p)" "\<not> isRemove (SysOpen p)" "\<not> isRemove (SysReaddirnames p)"
  "\<not> isRemove (SysClose f)" "\<not> isRemove (SysGlob g)"
  by (simp_all add: isRemove_def)

subsection \<open>C4: a label that does not parse (\<^verbatim>\<open>isOverdue\<close> of \<^verbatim>\<open>part_001\<close> and of \<^verbatim>\<open>log.go\<close>)\<close>

text \<open>
  C4 fails on \<^verbatim>\<open>isOverdue\<close> of \<^verbatim>\<open>part_001\<close>, which logs the parse failure and has no
  \<^verbatim>\<open>return\<close> after it: it goes on to compare the clock with the zero time that
  \<^verbatim>\<open>ParseInLocation\<close> returns beside the error, and answers true.  The directory holds the
  active file and \<^verbatim>\<open>app.log.20241301000000.gz\<close>, whose label has month 13 and does not
  parse.  \<^verbatim>\<open>deleteOverdue\<close> reports the failure and removes the file.
\<close>

theorem deleteOverdue_001_removes_unparsable:
  "ParseInLocation 0 formatSec ''20241301000000'' = None
   \<and> (let s' = deleteOverdue_001 exNow (exLogger_001 ''20240101115959'')
                 (exWorld [(''app.log'', Plain ''live''),
                           (''app.log.20241301000000.gz'', Gz (Plain ''odd''))] (\<lambda>c. False))
      in files s' = [(''app.log'', Plain ''live'')]
         \<and> filter isRemove (trace s') = [SysRemove ''app.log.20241301000000.gz'']
         \<and> diag s' = [(LevelError, ''Failed to parse time. ts:%s, err:%s'',
                        [''20241301000000'', ''parsing time''])])"
  by code_simp

text \<open>
  \<^verbatim>\<open>isOverdue\<close> of \<^verbatim>\<open>log.go\<close> returns false after the parse failure, and its sweep does what
  the claim says.  When the listing succeeds, a listed path in which the pattern is found
  but whose label does not parse under the suffix format is skipped: \<^verbatim>\<open>os.Remove\<close> is not
  called on it, the file system has at that path what it had, and the parse failure is
  handed to the logger at the error level.  The sweep returns (it does not panic).
\<close>

lemma cleanOldLogs_skips_unparsable:
  assumes cfg: "rotateCfg l = Some cfg"
    and glob: "\<not> faults s (SysGlob (Dir fname @ ''/*''))"
    and listed: "fn \<in> set (map (Join (Dir fname)) (dirEntries (Dir fname) s))"
    and found: "FindString (Digits (length (suffixFormat l))) fn \<noteq> []"
    and unparsed: "ParseInLocation (zone s) (suffixFormat l)
                     (FindString (Digits (length (suffixFormat l))) fn) = None"
  shows "\<exists>s'. cleanOldLogs now fname l s = Some (None, s')
           \<and> SysRemove fn \<notin> set (newTrace s s')
           \<and> map_of (files s') fn = map_of (files s) fn
           \<and> parseErrRecord (FindString (Digits (length (suffixFormat l))) fn) \<in> set (diag s')"
proof -
  let ?rx = "Digits (length (suffixFormat l))"
  let ?paths = "map (Join (Dir fname)) (dirEntries (Dir fname) s)"
  let ?s1 = "sys (SysGlob (Dir fname @ ''/*'')) s"
  let ?cand = "\<lambda>fn. FindString ?rx fn \<noteq> []"
  have g: "Glob (Dir fname) s = (Inr ?paths, ?s1)"
    using glob by (simp add: Glob_def Let_def)
  obtain s' where run: "sweepGen ?cand (FindString ?rx) (\<lambda>fn. fn) now ?paths l ?s1 = Some s'"
    and tr: "trace s' = trace ?s1 @ map (\<lambda>fn. SysRemove fn)
                (sweepRemoved ?cand (FindString ?rx) now l (zone ?s1) ?paths)"
    and dg: "diag s' = diag ?s1 @ map (\<lambda>fn. parseErrRecord (FindString ?rx fn))
                (sweepUnparsed ?cand (FindString ?rx) l (zone ?s1) ?paths)"
    and fl: "\<forall>q. map_of (files s') q =
                 (if q \<in> (\<lambda>fn. fn) ` set (sweepRemoved ?cand (FindString ?rx) now l (zone ?s1) ?paths)
                       \<and> \<not> faults ?s1 (SysRemove q)
                  then None else map_of (files ?s1) q)"
    using sweepGen_result [OF cfg, of ?cand "FindString ?rx" "\<lambda>fn. fn" now ?paths ?s1] by blast
  have notdue: "\<not> dueLabel now l (zone s) (FindString ?rx fn)"
    using unparsed by (simp add: dueLabel_def)
  then have notrem: "fn \<notin> set (sweepRemoved ?cand (FindString ?rx) now l (zone ?s1) ?paths)"
    by (simp add: sweepRemoved_def)
  have unp: "fn \<in> set (sweepUnparsed ?cand (FindString ?rx) l (zone ?s1) ?paths)"
    using listed found unparsed by (simp add: sweepUnparsed_def)
  have r: "cleanOldLogs now fname l s = Some (None, s')"
    using g run by (simp add: cleanOldLogs_def Let_def cleanLoop_sweepGen)
  have t: "SysRemove fn \<notin> set (newTrace s s')"
    using notrem by (auto simp add: newTrace_def tr)
  have f: "map_of (files s') fn = map_of (files s) fn"
    using fl notrem by simp
  have d: "parseErrRecord (FindString ?rx fn) \<in> set (diag s')"
    using unp by (simp add: dg)
  from r t f d show ?thesis by blast
qed

lemma cleanOldLogs_skips_unparsable_example:
  "\<exists>s'. cleanOldLogs exNow ''app.log''
            (exLoggerOn ''app.log'' formatSec \<lparr>Rotate = 2, Duration = Second, Compress = False\<rparr>)
            (exWorld [(''app.log'', Plain ''live''), (''app.log.20241301000000'', Plain ''odd'')] (\<lambda>c. False))
          = Some (None, s')
      \<and> map_of (files s') ''app.log.20241301000000'' = Some (Plain ''odd'')
      \<and> parseErrRecord ''20241301000000'' \<in> set (diag s')"
proof -
  let ?cfg = "\<lparr>Rotate = 2, Duration = Second, Compress = False\<rparr>"
  let ?l = "exLoggerOn ''app.log'' formatSec ?cfg"
  let ?s = "exWorld [(''app.log'', Plain ''live''), (''app.log.20241301000000'', Plain ''odd'')] (\<lambda>c. False)"
  let ?fn = "''app.log.20241301000000''"
  have cfg: "rotateCfg ?l = Some ?cfg" by (simp add: exLoggerOn_def)
  have glob: "\<not> faults ?s (SysGlob (Dir ''app.log'' @ ''/*''))" by (simp add: exWorld_def)
  have listed: "?fn \<in> set (map (Join (Dir ''app.log'')) (dirEntries (Dir ''app.log'') ?s))"
    by code_simp
  have m: "FindString (Digits (length (suffixFormat ?l))) ?fn = ''20241301000000''"
    by code_simp
  have found: "FindString (Digits (length (suffixFormat ?l))) ?fn \<noteq> []"
    unfolding m by simp
  have unparsed: "ParseInLocation (zone ?s) (suffixFormat ?l)
      (FindString (Digits (length (suffixFormat ?l))) ?fn) = None"
    by code_simp
  have before: "map_of (files ?s) ?fn = Some (Plain ''odd'')"
    by (simp add: exWorld_def)
  from cleanOldLogs_skips_unparsable [OF cfg glob listed found unparsed, of exNow]
  show ?thesis unfolding m before by blast
qed

subsection \<open>C3: what the sweep removes (\<^verbatim>\<open>cleanOldLogs\<close> of \<^verbatim>\<open>part_000\<close> and of \<^verbatim>\<open>log.go\<close>)\<close>

















subsection \<open>C9: \<^verbatim>\<open>Stop\<close> and the loop of \<^verbatim>\<open>StartRotate\<close> (\<^verbatim>\<open>log.go\<close>)\<close>

text \<open>
  C9 fails on the code.  \<^verbatim>\<open>StartRotate\<close> makes channel 0 and starts the loop, which waits
  in \<^verbatim>\<open>select\<close> on that channel and on a timer for 13:00.  \<^verbatim>\<open>Stop\<close>, at 12:10, closes the
  channel and sets \<^verbatim>\<open>rotateCh\<close> to nil; the writer is untouched.  The closed channel wakes
  the loop, which calls \<^verbatim>\<open>Rotate\<close> at once and goes on to wait on the nil channel and on
  the timer; at 13:00 the timer wakes it and it calls \<^verbatim>\<open>Rotate\<close> again.  The loop has no
  exit: both renames below happen after \<^verbatim>\<open>Stop\<close> has returned.
\<close>

theorem Stop_leaves_loop_rotating:
  "(case StartRotate (exLoggerOn ''app.log'' [] \<lparr>Rotate = 2, Duration = Hour, Compress = False\<rparr>)
           (exWorld [(''app.log'', Plain ''live'')] (\<lambda>c. False)) of
      (e0, l1, s1) \<Rightarrow>
        (case loopRun (exNow + 600000000000) LoopHead l1 s1 of
           None \<Rightarrow> False
         | Some (pc1, l2, s2) \<Rightarrow>
             (case Stop l2 s2 of
                (l3, s3) \<Rightarrow>
                  (case loopRun (exNow + 600000000000) pc1 l3 s3 of
                     None \<Rightarrow> False
                   | Some (pc2, l4, s4) \<Rightarrow>
                       (case loopRun (exNow + 3600000000000) pc2 l4 s4 of
                          None \<Rightarrow> False
                        | Some (pc3, l5, s5) \<Rightarrow>
                            e0 = None \<and> spawned s1 = [GoRotateLoop]
                            \<and> pc1 = LoopSelect (Some 0) (exNow + 3600000000000)
                            \<and> rotateCh l3 = None \<and> closedCh s3 = [0] \<and> w l3 = w l2
                            \<and> pc2 = LoopSelect None (exNow + 3600000000000)
                            \<and> filter isRename (newTrace s3 s5)
                                = [SysRename ''app.log'' ''app.log.202401011200'',
                                   SysRename ''app.log'' ''app.log.202401011300''])))))"
  by code_simp

end
